theory Spec2Isabelle
  imports Main
begin

section \<open>The ContainerRuntime reconciler\<close>

text \<open>
  A shallow embedding of
  \<^verbatim>\<open>extensions/pkg/controller/containerruntime/reconciler.go\<close>: the entry point
  \<^verbatim>\<open>Reconcile\<close> and its four phase handlers \<^verbatim>\<open>reconcile\<close>, \<^verbatim>\<open>restore\<close>,
  \<^verbatim>\<open>delete\<close> and \<^verbatim>\<open>migrate\<close>.

  The object \<^verbatim>\<open>cr\<close> is a pointer that the helpers mutate, so the handlers pass a
  world along: the current object and the log of every call made to a collaborator that
  can change something (store writes, actuator methods, the ownership watchdog and its
  cleanup action). The outcome of every collaborator is a field of the record \<open>deps\<close>,
  so each theorem holds for every behaviour of the collaborators.
\<close>

subsection \<open>Data model\<close>

text \<open>
  A Go \<^verbatim>\<open>error\<close>: an error of a collaborator, known by its message, or the error
  \<^verbatim>\<open>fmt.Errorf(prefix + "%+v", err)\<close> built from another one.
\<close>

datatype error = Err string | Errorf string error

text \<open>
  Modelled from the spec: the type \<^verbatim>\<open>gardencorev1beta1.LastOperationType\<close> is declared
  outside the source file, which names its values Migrate, Restore and Delete. Section 3:
  the type of a last operation is one of Reconcile, Restore, Delete, Migrate.
\<close>

datatype LastOperationType =
    LastOperationTypeReconcile
  | LastOperationTypeRestore
  | LastOperationTypeDelete
  | LastOperationTypeMigrate

text \<open>
  Modelled from the spec: the states of a last operation are declared outside the source
  file. Section 3: the state is one of Processing, Succeeded, Error.
\<close>

datatype LastOperationState =
    LastOperationStateProcessing
  | LastOperationStateSucceeded
  | LastOperationStateError

text \<open>
  Modelled from the spec: \<^verbatim>\<open>gardencorev1beta1.LastOperation\<close> is declared outside the
  source file. Section 3: the last operation record is a type, a state and a description.
\<close>

record LastOperation =
  Type :: LastOperationType
  State :: LastOperationState
  Description :: string

text \<open>
  Modelled from the spec: the object's metadata (\<^verbatim>\<open>metav1.ObjectMeta\<close>) is declared
  outside the source file, which reads its namespace and its deletion timestamp. Section
  3: an identity (namespace and name), finalizer tokens, annotations (a mapping from
  string to string) and a deletion marker (nil, or a timestamp).
\<close>

record ObjectMeta =
  Namespace :: string
  Name :: string
  Finalizers :: "string list"
  Annotations :: "string \<rightharpoonup> string"
  DeletionTimestamp :: "nat option"

text \<open>
  Modelled from the spec: the status of the object is declared outside the source file,
  which reads \<^verbatim>\<open>cr.Status.LastOperation\<close> (nil or a record). Section 3: a status block
  with the last operation record; section 6: the error report takes a cause, kept here
  as the last error.
\<close>

record ContainerRuntimeStatus =
  LastOperation :: "LastOperation option"
  LastError :: "error option"

text \<open>
  Modelled from the spec: \<^verbatim>\<open>extensionsv1alpha1.ContainerRuntime\<close> is declared outside the
  source file, which reads \<^verbatim>\<open>cr.ObjectMeta\<close> and \<^verbatim>\<open>cr.Status\<close>. The desired-state
  part of section 3 is opaque to the reconciler and left out.
\<close>

record ContainerRuntime =
  ObjectMeta :: ObjectMeta
  Status :: ContainerRuntimeStatus

text \<open>The zero value \<^verbatim>\<open>&extensionsv1alpha1.ContainerRuntime{}\<close>.\<close>

definition emptyContainerRuntime :: ContainerRuntime where
  "emptyContainerRuntime =
     \<lparr>ObjectMeta = \<lparr>Namespace = [], Name = [], Finalizers = [], Annotations = Map.empty,
                     DeletionTimestamp = None\<rparr>,
      Status = \<lparr>LastOperation = None, LastError = None\<rparr>\<rparr>"

text \<open>
  Modelled from the spec: the shoot of a cluster is declared outside the source file,
  which reads its name and, through \<^verbatim>\<open>kutil.ObjectName\<close>, its identity.
\<close>

record Shoot =
  ShootNamespace :: string
  ShootName :: string

text \<open>
  Modelled from the spec: \<^verbatim>\<open>extensionscontroller.Cluster\<close> is declared outside the
  source file, which reads \<^verbatim>\<open>cluster.Shoot\<close>, nil or a shoot. Section 3: the cluster
  descriptor is a read-only view of the owning cluster's health and identity; its health
  is read by the parameter \<open>IsFailed\<close>.
\<close>

record Cluster =
  Shoot :: "Shoot option"

text \<open>
  Modelled from the spec: \<^verbatim>\<open>reconcile.Result\<close> of controller-runtime is declared outside
  the source file, which only builds its zero value \<^verbatim>\<open>reconcile.Result{}\<close>. Section 6:
  the result carries a requeue-after duration or none.
\<close>

record Result =
  Requeue :: bool
  RequeueAfter :: nat

definition emptyResult :: Result where
  "emptyResult = \<lparr>Requeue = False, RequeueAfter = 0\<rparr>"

text \<open>A \<^verbatim>\<open>context.Context\<close> and a cleanup function are known by an identifier.\<close>

type_synonym Context = nat
type_synonym cleanup = nat

text \<open>How a call ends: it returns, with or without an error, or it panics.\<close>

datatype callResult = Returned "error option" | Panicked string

text \<open>How \<^verbatim>\<open>Reconcile\<close> or a handler ends: \<^verbatim>\<open>return result, err\<close>, or a panic
  that unwinds it.\<close>

datatype exit = Return Result "error option" | Panic string

subsection \<open>The log of calls and the world\<close>

datatype event =
    StoreUpdate ContainerRuntime "error option"
  | ActuatorReconcile Context
  | ActuatorRestore Context
  | ActuatorDelete Context
  | ActuatorMigrate Context
  | OwnerCheck string string string
  | Cleanup cleanup

record world =
  cr :: ContainerRuntime
  trace :: "event list"

fun isStoreUpdate :: "event \<Rightarrow> bool" where
  "isStoreUpdate (StoreUpdate obj res) = True"
| "isStoreUpdate e = False"

fun isActuatorCall :: "event \<Rightarrow> bool" where
  "isActuatorCall (ActuatorReconcile c) = True"
| "isActuatorCall (ActuatorRestore c) = True"
| "isActuatorCall (ActuatorDelete c) = True"
| "isActuatorCall (ActuatorMigrate c) = True"
| "isActuatorCall e = False"

fun isOwnerCheck :: "event \<Rightarrow> bool" where
  "isOwnerCheck (OwnerCheck ns shoot key) = True"
| "isOwnerCheck e = False"

fun isCleanup :: "event \<Rightarrow> bool" where
  "isCleanup (Cleanup c) = True"
| "isCleanup e = False"

text \<open>The events of the ownership guard: the watchdog's check and the cleanup.\<close>

fun isGuardEvent :: "event \<Rightarrow> bool" where
  "isGuardEvent (OwnerCheck ns shoot key) = True"
| "isGuardEvent (Cleanup c) = True"
| "isGuardEvent e = False"

subsection \<open>Collaborators\<close>

text \<open>
  Everything \<^verbatim>\<open>reconciler.go\<close> uses and does not define. The constants
  \<^verbatim>\<open>FinalizerName\<close> and \<^verbatim>\<open>v1beta1constants.GardenerOperation\<close> and the pure helpers
  are parameters; two of them read the classification of an actuator's error, which the
  source leaves to its helpers: \<open>ReconcileErrCauseOrErr\<close> gives the underlying cause of
  a wrapped error and a bare error itself, \<open>requeueResult\<close> gives the result that goes
  upstream with the error, a requeue-after duration or none. The store, the actuator and
  the watchdog are given by their outcomes:
  a store write may fail depending on the context, on what happened before and on the
  object written; an actuator method may return an error or panic.
\<close>

record deps =
  FinalizerName :: string
  GardenerOperation :: string
  IsNotFound :: "error \<Rightarrow> bool"
  ObjectName :: "string \<Rightarrow> string \<Rightarrow> string"
  IsFailed :: "Cluster \<Rightarrow> bool"
  ComputeOperationType :: "ObjectMeta \<Rightarrow> LastOperation option \<Rightarrow> LastOperationType"
  ShouldSkipOperation :: "LastOperationType \<Rightarrow> ContainerRuntime \<Rightarrow> bool"
  ReconcileErrCauseOrErr :: "error \<Rightarrow> error"
  requeueResult :: "error \<Rightarrow> Result"
  client_Get :: "Context \<Rightarrow> string \<times> string \<Rightarrow> error + ContainerRuntime"
  GetCluster :: "Context \<Rightarrow> string \<Rightarrow> error + Cluster"
  GetOwnerCheckResultAndContext ::
    "Context \<Rightarrow> string \<Rightarrow> string \<Rightarrow> string \<Rightarrow> bool \<times> Context \<times> cleanup option \<times> error option"
  store_update :: "Context \<Rightarrow> event list \<Rightarrow> ContainerRuntime \<Rightarrow> error option"
  actuator_Reconcile :: "Context \<Rightarrow> ContainerRuntime \<Rightarrow> Cluster \<Rightarrow> callResult"
  actuator_Restore :: "Context \<Rightarrow> ContainerRuntime \<Rightarrow> Cluster \<Rightarrow> callResult"
  actuator_Delete :: "Context \<Rightarrow> ContainerRuntime \<Rightarrow> Cluster \<Rightarrow> callResult"
  actuator_Migrate :: "Context \<Rightarrow> ContainerRuntime \<Rightarrow> Cluster \<Rightarrow> callResult"

definition logEvent :: "event \<Rightarrow> world \<Rightarrow> world" where
  "logEvent e w = w\<lparr>trace := trace w @ [e]\<rparr>"

text \<open>
  Modelled from the spec: the resource store's \<^verbatim>\<open>update(object) \<rightarrow> error\<close> is not in the
  source file. Section 3: the object is never mutated in local memory without a store
  write that succeeds. A write that fails leaves the object as it was.
\<close>

definition update :: "deps \<Rightarrow> Context \<Rightarrow> ContainerRuntime \<Rightarrow> world \<Rightarrow> error option \<times> world" where
  "update d ctx obj w =
     (case store_update d ctx (trace w) obj of
        Some err \<Rightarrow> (Some err, logEvent (StoreUpdate obj (Some err)) w)
      | None \<Rightarrow> (None, logEvent (StoreUpdate obj None) (w\<lparr>cr := obj\<rparr>)))"

text \<open>\<^verbatim>\<open>controllerutil.ContainsFinalizer\<close> of controller-runtime: membership in the
  object's finalizers.\<close>

definition ContainsFinalizer :: "ContainerRuntime \<Rightarrow> string \<Rightarrow> bool" where
  "ContainsFinalizer obj finalizer = (finalizer \<in> set (Finalizers (ObjectMeta obj)))"

definition setFinalizers :: "string list \<Rightarrow> ContainerRuntime \<Rightarrow> ContainerRuntime" where
  "setFinalizers fs obj = obj\<lparr>ObjectMeta := (ObjectMeta obj)\<lparr>Finalizers := fs\<rparr>\<rparr>"

definition setLastOperation ::
  "LastOperationType \<Rightarrow> LastOperationState \<Rightarrow> string \<Rightarrow> ContainerRuntime \<Rightarrow> ContainerRuntime" where
  "setLastOperation t s description obj =
     obj\<lparr>Status := (Status obj)\<lparr>LastOperation :=
       Some \<lparr>Type = t, State = s, Description = description\<rparr>\<rparr>\<rparr>"

text \<open>
  Modelled from the spec: \<^verbatim>\<open>controllerutils.EnsureFinalizer\<close> is not in the source file.
  Sections 4.3 and 8: ensuring the finalizer is an idempotent add through the store, with
  no duplicate token and no store write when the token is there.
\<close>

definition EnsureFinalizer :: "deps \<Rightarrow> Context \<Rightarrow> string \<Rightarrow> world \<Rightarrow> error option \<times> world" where
  "EnsureFinalizer d ctx finalizer w =
     (if ContainsFinalizer (cr w) finalizer then (None, w)
      else update d ctx (setFinalizers (Finalizers (ObjectMeta (cr w)) @ [finalizer]) (cr w)) w)"

text \<open>
  Modelled from the spec: \<^verbatim>\<open>controllerutils.RemoveFinalizer\<close> is not in the source file.
  Section 4.3: after a successful delete this controller's finalizer token is removed,
  through the store.
\<close>

definition RemoveFinalizer :: "deps \<Rightarrow> Context \<Rightarrow> string \<Rightarrow> world \<Rightarrow> error option \<times> world" where
  "RemoveFinalizer d ctx finalizer w =
     update d ctx (setFinalizers (removeAll finalizer (Finalizers (ObjectMeta (cr w)))) (cr w)) w"

text \<open>
  Modelled from the spec: \<^verbatim>\<open>extensionscontroller.DeleteAllFinalizers\<close> is not in the
  source file. Sections 3 and 4.3: a migration clears all finalizer tokens, through the
  store.
\<close>

definition DeleteAllFinalizers :: "deps \<Rightarrow> Context \<Rightarrow> world \<Rightarrow> error option \<times> world" where
  "DeleteAllFinalizers d ctx w = update d ctx (setFinalizers [] (cr w)) w"

text \<open>
  Modelled from the spec: \<^verbatim>\<open>extensionscontroller.RemoveAnnotation\<close> is not in the source
  file. Section 4.3: the operation-trigger annotation is cleared, through the store.
\<close>

definition RemoveAnnotation :: "deps \<Rightarrow> Context \<Rightarrow> string \<Rightarrow> world \<Rightarrow> error option \<times> world" where
  "RemoveAnnotation d ctx annotation w =
     update d ctx
       ((cr w)\<lparr>ObjectMeta := (ObjectMeta (cr w))\<lparr>Annotations :=
          (Annotations (ObjectMeta (cr w)))(annotation := None)\<rparr>\<rparr>) w"

text \<open>
  Modelled from the spec: the method \<^verbatim>\<open>Processing\<close> of
  \<^verbatim>\<open>extensionscontroller.StatusUpdater\<close> is not in the source file. Section 6:
  \<^verbatim>\<open>reportProcessing(object, phase, message)\<close> writes the last operation record.
\<close>

definition statusUpdater_Processing ::
  "deps \<Rightarrow> Context \<Rightarrow> LastOperationType \<Rightarrow> string \<Rightarrow> world \<Rightarrow> error option \<times> world" where
  "statusUpdater_Processing d ctx t description w =
     update d ctx (setLastOperation t LastOperationStateProcessing description (cr w)) w"

text \<open>
  Modelled from the spec: the method \<^verbatim>\<open>Success\<close> of the status updater is not in the
  source file. Section 6: \<^verbatim>\<open>reportSuccess(object, phase, message)\<close> writes the last
  operation record.
\<close>

definition statusUpdater_Success ::
  "deps \<Rightarrow> Context \<Rightarrow> LastOperationType \<Rightarrow> string \<Rightarrow> world \<Rightarrow> error option \<times> world" where
  "statusUpdater_Success d ctx t description w =
     update d ctx (setLastOperation t LastOperationStateSucceeded description (cr w)) w"

definition setLastError :: "error \<Rightarrow> ContainerRuntime \<Rightarrow> ContainerRuntime" where
  "setLastError cause obj = obj\<lparr>Status := (Status obj)\<lparr>LastError := Some cause\<rparr>\<rparr>"

text \<open>
  Modelled from the spec: the method \<^verbatim>\<open>Error\<close> of the status updater is not in the
  source file. Section 6: \<^verbatim>\<open>reportError(object, cause, phase, message)\<close> writes the last
  operation record; the cause goes to the status block. The method returns the error of
  its write; the handlers drop it.
\<close>

definition statusUpdater_Error ::
  "deps \<Rightarrow> Context \<Rightarrow> error \<Rightarrow> LastOperationType \<Rightarrow> string \<Rightarrow> world \<Rightarrow> error option \<times> world" where
  "statusUpdater_Error d ctx cause t description w =
     update d ctx
       (setLastError cause (setLastOperation t LastOperationStateError description (cr w))) w"

text \<open>
  Modelled from the spec: \<^verbatim>\<open>extensionscontroller.ReconcileErr\<close> is not in the source
  file, which hands it the actuator's error and returns what it returns. Section 4.3: on
  an actuator failure a retriable error is returned upstream, classified as wrapped
  (underlying cause preserved) or bare; section 6: the result produced for the scheduler
  is a requeue-after duration or none, with the classified error. So the error goes
  upstream as the actuator returned it, wrapped or bare, and the result is the one its
  classification asks for.
\<close>

definition ReconcileErr :: "deps \<Rightarrow> error \<Rightarrow> exit" where
  "ReconcileErr d err = Return (requeueResult d err) (Some err)"



subsection \<open>The phase handlers\<close>

definition reconcile ::
  "deps \<Rightarrow> Context \<Rightarrow> Cluster \<Rightarrow> LastOperationType \<Rightarrow> world \<Rightarrow> exit \<times> world" where
  "reconcile d ctx cluster operationType w =
     (case EnsureFinalizer d ctx (FinalizerName d) w of
        (Some err, w1) \<Rightarrow> (Return emptyResult (Some err), w1)
      | (None, w1) \<Rightarrow>
     (case statusUpdater_Processing d ctx operationType ''Reconciling the containerruntime'' w1 of
        (Some err, w2) \<Rightarrow> (Return emptyResult (Some err), w2)
      | (None, w2) \<Rightarrow>
     (case actuator_Reconcile d ctx (cr w2) cluster of
        Panicked p \<Rightarrow> (Panic p, logEvent (ActuatorReconcile ctx) w2)
      | Returned (Some err) \<Rightarrow>
          (ReconcileErr d err,
           snd (statusUpdater_Error d ctx (ReconcileErrCauseOrErr d err) operationType
                  ''Error reconciling containerruntime'' (logEvent (ActuatorReconcile ctx) w2)))
      | Returned None \<Rightarrow>
     (case statusUpdater_Success d ctx operationType ''Successfully reconciled containerruntime''
             (logEvent (ActuatorReconcile ctx) w2) of
        (Some err, w3) \<Rightarrow> (Return emptyResult (Some err), w3)
      | (None, w3) \<Rightarrow> (Return emptyResult None, w3)))))"

definition restore :: "deps \<Rightarrow> Context \<Rightarrow> Cluster \<Rightarrow> world \<Rightarrow> exit \<times> world" where
  "restore d ctx cluster w =
     (case EnsureFinalizer d ctx (FinalizerName d) w of
        (Some err, w1) \<Rightarrow> (Return emptyResult (Some err), w1)
      | (None, w1) \<Rightarrow>
     (case statusUpdater_Processing d ctx LastOperationTypeRestore
             ''Restoring the containerruntime'' w1 of
        (Some err, w2) \<Rightarrow> (Return emptyResult (Some err), w2)
      | (None, w2) \<Rightarrow>
     (case actuator_Restore d ctx (cr w2) cluster of
        Panicked p \<Rightarrow> (Panic p, logEvent (ActuatorRestore ctx) w2)
      | Returned (Some err) \<Rightarrow>
          (ReconcileErr d err,
           snd (statusUpdater_Error d ctx (ReconcileErrCauseOrErr d err) LastOperationTypeRestore
                  ''Error restoring containerruntime'' (logEvent (ActuatorRestore ctx) w2)))
      | Returned None \<Rightarrow>
     (case statusUpdater_Success d ctx LastOperationTypeRestore
             ''Successfully restored containerruntime'' (logEvent (ActuatorRestore ctx) w2) of
        (Some err, w3) \<Rightarrow> (Return emptyResult (Some err), w3)
      | (None, w3) \<Rightarrow>
     (case RemoveAnnotation d ctx (GardenerOperation d) w3 of
        (Some err, w4) \<Rightarrow>
          (Return emptyResult
             (Some (Errorf ''error removing annotation from containerruntime: '' err)), w4)
      | (None, w4) \<Rightarrow> (Return emptyResult None, w4))))))"

definition delete :: "deps \<Rightarrow> Context \<Rightarrow> Cluster \<Rightarrow> world \<Rightarrow> exit \<times> world" where
  "delete d ctx cluster w =
     (if \<not> ContainsFinalizer (cr w) (FinalizerName d) then (Return emptyResult None, w)
      else
     (case statusUpdater_Processing d ctx LastOperationTypeDelete
             ''Deleting the containerruntime'' w of
        (Some err, w1) \<Rightarrow> (Return emptyResult (Some err), w1)
      | (None, w1) \<Rightarrow>
     (case actuator_Delete d ctx (cr w1) cluster of
        Panicked p \<Rightarrow> (Panic p, logEvent (ActuatorDelete ctx) w1)
      | Returned (Some err) \<Rightarrow>
          (ReconcileErr d err,
           snd (statusUpdater_Error d ctx (ReconcileErrCauseOrErr d err) LastOperationTypeDelete
                  ''Error deleting containerruntime'' (logEvent (ActuatorDelete ctx) w1)))
      | Returned None \<Rightarrow>
     (case statusUpdater_Success d ctx LastOperationTypeDelete
             ''Successfully deleted containerruntime'' (logEvent (ActuatorDelete ctx) w1) of
        (Some err, w2) \<Rightarrow> (Return emptyResult (Some err), w2)
      | (None, w2) \<Rightarrow>
     (case RemoveFinalizer d ctx (FinalizerName d) w2 of
        (Some err, w3) \<Rightarrow>
          (Return emptyResult
             (Some (Errorf ''error removing finalizer from the containerruntime: '' err)), w3)
      | (None, w3) \<Rightarrow> (Return emptyResult None, w3))))))"

definition migrate :: "deps \<Rightarrow> Context \<Rightarrow> Cluster \<Rightarrow> world \<Rightarrow> exit \<times> world" where
  "migrate d ctx cluster w =
     (case statusUpdater_Processing d ctx LastOperationTypeMigrate
             ''Migrating the containerruntime'' w of
        (Some err, w1) \<Rightarrow> (Return emptyResult (Some err), w1)
      | (None, w1) \<Rightarrow>
     (case actuator_Migrate d ctx (cr w1) cluster of
        Panicked p \<Rightarrow> (Panic p, logEvent (ActuatorMigrate ctx) w1)
      | Returned (Some err) \<Rightarrow>
          (ReconcileErr d err,
           snd (statusUpdater_Error d ctx (ReconcileErrCauseOrErr d err) LastOperationTypeMigrate
                  ''Error migrating containerruntime'' (logEvent (ActuatorMigrate ctx) w1)))
      | Returned None \<Rightarrow>
     (case statusUpdater_Success d ctx LastOperationTypeMigrate
             ''Successfully migrated containerruntime'' (logEvent (ActuatorMigrate ctx) w1) of
        (Some err, w2) \<Rightarrow> (Return emptyResult (Some err), w2)
      | (None, w2) \<Rightarrow>
     (case DeleteAllFinalizers d ctx w2 of
        (Some err, w3) \<Rightarrow>
          (Return emptyResult
             (Some (Errorf ''error removing finalizers from the containerruntime: '' err)), w3)
      | (None, w3) \<Rightarrow>
     (case RemoveAnnotation d ctx (GardenerOperation d) w3 of
        (Some err, w4) \<Rightarrow>
          (Return emptyResult
             (Some (Errorf ''error removing annotation from containerruntime: '' err)), w4)
      | (None, w4) \<Rightarrow> (Return emptyResult None, w4))))))"

subsection \<open>The entry point\<close>

text \<open>The \<^verbatim>\<open>switch\<close> of \<^verbatim>\<open>Reconcile\<close>: the first case that holds is taken.\<close>

definition dispatch ::
  "deps \<Rightarrow> Context \<Rightarrow> Cluster \<Rightarrow> LastOperationType \<Rightarrow> world \<Rightarrow> exit \<times> world" where
  "dispatch d ctx cluster operationType w =
     (if ShouldSkipOperation d operationType (cr w) then (Return emptyResult None, w)
      else if operationType = LastOperationTypeMigrate then migrate d ctx cluster w
      else if DeletionTimestamp (ObjectMeta (cr w)) \<noteq> None then delete d ctx cluster w
      else if operationType = LastOperationTypeRestore then restore d ctx cluster w
      else reconcile d ctx cluster operationType w)"

text \<open>\<^verbatim>\<open>if cleanup != nil { defer cleanup() }\<close>: the deferred call runs when the rest of
  the function has ended, by a return or by a panic.\<close>

definition deferred :: "cleanup option \<Rightarrow> exit \<times> world \<Rightarrow> exit \<times> world" where
  "deferred cleanup r =
     (case cleanup of
        None \<Rightarrow> r
      | Some c \<Rightarrow> (fst r, logEvent (Cleanup c) (snd r)))"

definition Reconcile :: "deps \<Rightarrow> Context \<Rightarrow> string \<times> string \<Rightarrow> exit \<times> world" where
  "Reconcile d ctx request =
     (case client_Get d ctx request of
        Inl err \<Rightarrow>
          (if IsNotFound d err
           then (Return emptyResult None, \<lparr>cr = emptyContainerRuntime, trace = []\<rparr>)
           else (Return emptyResult (Some err), \<lparr>cr = emptyContainerRuntime, trace = []\<rparr>))
      | Inr obj \<Rightarrow>
     (case GetCluster d ctx (Namespace (ObjectMeta obj)) of
        Inl err \<Rightarrow> (Return emptyResult (Some err), \<lparr>cr = obj, trace = []\<rparr>)
      | Inr cluster \<Rightarrow>
          (if IsFailed d cluster then (Return emptyResult None, \<lparr>cr = obj, trace = []\<rparr>)
           else
             (let operationType =
                    ComputeOperationType d (ObjectMeta obj) (LastOperation (Status obj))
              in if Shoot cluster \<noteq> None \<and> operationType \<noteq> LastOperationTypeMigrate
                 then
                   (let key = ''containerruntime:'' @
                                ObjectName d (Namespace (ObjectMeta obj)) (Name (ObjectMeta obj));
                        shoot = the (Shoot cluster);
                        w = \<lparr>cr = obj,
                             trace = [OwnerCheck (Namespace (ObjectMeta obj)) (ShootName shoot) key]\<rparr>
                    in case GetOwnerCheckResultAndContext d ctx (Namespace (ObjectMeta obj))
                              (ShootName shoot) key of
                         (ok, watchdogCtx, cleanup, Some err) \<Rightarrow> (Return emptyResult (Some err), w)
                       | (ok, watchdogCtx, cleanup, None) \<Rightarrow>
                           (if \<not> ok
                            then (Return emptyResult
                                    (Some (Err (''this seed is not the owner of shoot '' @
                                       ObjectName d (ShootNamespace shoot) (ShootName shoot)))), w)
                            else deferred cleanup (dispatch d watchdogCtx cluster operationType w)))
                 else dispatch d ctx cluster operationType \<lparr>cr = obj, trace = []\<rparr>))))"

text \<open>
  The cleanup action \<^verbatim>\<open>Reconcile\<close> defers, if any: the one the watchdog hands back
  when the guard applies (a live shoot, an operation other than Migrate) and it confirms
  the ownership without an error.
\<close>

definition acquiredCleanup :: "deps \<Rightarrow> Context \<Rightarrow> string \<times> string \<Rightarrow> cleanup option" where
  "acquiredCleanup d ctx request =
     (case client_Get d ctx request of
        Inl err \<Rightarrow> None
      | Inr obj \<Rightarrow>
     (case GetCluster d ctx (Namespace (ObjectMeta obj)) of
        Inl err \<Rightarrow> None
      | Inr cluster \<Rightarrow>
          (if IsFailed d cluster then None
           else if Shoot cluster \<noteq> None \<and>
                   ComputeOperationType d (ObjectMeta obj) (LastOperation (Status obj))
                     \<noteq> LastOperationTypeMigrate
           then (case GetOwnerCheckResultAndContext d ctx (Namespace (ObjectMeta obj))
                        (ShootName (the (Shoot cluster)))
                        (''containerruntime:'' @
                           ObjectName d (Namespace (ObjectMeta obj)) (Name (ObjectMeta obj))) of
                   (ok, watchdogCtx, cleanup, err) \<Rightarrow>
                     (if err = None \<and> ok then cleanup else None))
           else None)))"

text \<open>
  Two notions for the finalizer invariant of the reconcile and restore handlers: an event
  respects the token when it is not a store write, or the object written carries the
  token; a world is finalized from position \<open>n\<close> of its log on when its object
  carries the token and every event from there on respects it.
\<close>

fun carriesFinalizer :: "string \<Rightarrow> event \<Rightarrow> bool" where
  "carriesFinalizer f (StoreUpdate obj res) = ContainsFinalizer obj f"
| "carriesFinalizer f e = True"

definition finalized :: "string \<Rightarrow> nat \<Rightarrow> world \<Rightarrow> bool" where
  "finalized f n w =
     (n \<le> length (trace w) \<and> ContainsFinalizer (cr w) f \<and>
      list_all (carriesFinalizer f) (drop n (trace w)))"

subsection \<open>A sample environment\<close>

text \<open>
  Concrete collaborators on which the theorems are run: a store that accepts every write,
  an actuator that succeeds, a watchdog that confirms the ownership, and a classifier
  that reads the migrate annotation, the deletion marker and the last operation.
\<close>

definition sampleObject :: ContainerRuntime where
  "sampleObject =
     \<lparr>ObjectMeta = \<lparr>Namespace = ''shoot--foo--bar'', Name = ''gvisor'',
                     Finalizers = [''other''], Annotations = Map.empty,
                     DeletionTimestamp = None\<rparr>,
      Status = \<lparr>LastOperation = None, LastError = None\<rparr>\<rparr>"

definition sampleCluster :: Cluster where
  "sampleCluster = \<lparr>Shoot = Some \<lparr>ShootNamespace = ''garden-foo'', ShootName = ''bar''\<rparr>\<rparr>"

definition sampleClassifier :: "ObjectMeta \<Rightarrow> LastOperation option \<Rightarrow> LastOperationType" where
  "sampleClassifier meta lastOperation =
     (if Annotations meta ''operation'' = Some ''migrate'' then LastOperationTypeMigrate
      else if DeletionTimestamp meta \<noteq> None then LastOperationTypeDelete
      else (case lastOperation of
              None \<Rightarrow> LastOperationTypeReconcile
            | Some lo \<Rightarrow>
                (if Type lo = LastOperationTypeRestore then LastOperationTypeRestore
                 else LastOperationTypeReconcile)))"

definition sampleDeps :: deps where
  "sampleDeps =
     \<lparr>FinalizerName = ''containerruntime'',
      GardenerOperation = ''operation'',
      IsNotFound = (\<lambda>err. err = Err ''not found''),
      ObjectName = (\<lambda>ns name. ns @ ''/'' @ name),
      IsFailed = (\<lambda>cluster. False),
      ComputeOperationType = sampleClassifier,
      ShouldSkipOperation = (\<lambda>operationType obj. False),
      ReconcileErrCauseOrErr = (\<lambda>err. err),
      requeueResult = (\<lambda>err. emptyResult),
      client_Get = (\<lambda>ctx request. Inr sampleObject),
      GetCluster = (\<lambda>ctx ns. Inr sampleCluster),
      GetOwnerCheckResultAndContext = (\<lambda>ctx ns shoot key. (True, Suc ctx, Some 7, None)),
      store_update = (\<lambda>ctx history obj. None),
      actuator_Reconcile = (\<lambda>ctx obj cluster. Returned None),
      actuator_Restore = (\<lambda>ctx obj cluster. Returned None),
      actuator_Delete = (\<lambda>ctx obj cluster. Returned None),
      actuator_Migrate = (\<lambda>ctx obj cluster. Returned None)\<rparr>"

definition sampleRequest :: "string \<times> string" where
  "sampleRequest = (''shoot--foo--bar'', ''gvisor'')"

text \<open>The sample object once it carries the token, while it migrates (the migrate
  annotation set), once its deletion is requested, and while it is restored.\<close>

definition finalizedObject :: ContainerRuntime where
  "finalizedObject = setFinalizers [''other'', ''containerruntime''] sampleObject"

definition migratingObject :: ContainerRuntime where
  "migratingObject =
     finalizedObject\<lparr>ObjectMeta := (ObjectMeta finalizedObject)
       \<lparr>Annotations := [''operation'' \<mapsto> ''migrate'']\<rparr>\<rparr>"

definition deletedObject :: ContainerRuntime where
  "deletedObject =
     finalizedObject\<lparr>ObjectMeta := (ObjectMeta finalizedObject)\<lparr>DeletionTimestamp := Some 1\<rparr>\<rparr>"

definition restoringObject :: ContainerRuntime where
  "restoringObject =
     setLastOperation LastOperationTypeRestore LastOperationStateError
       ''Error restoring containerruntime'' sampleObject"

definition depsFor :: "ContainerRuntime \<Rightarrow> deps" where
  "depsFor obj = sampleDeps\<lparr>client_Get := (\<lambda>ctx request. Inr obj)\<rparr>"

text \<open>Stores that refuse writes: every write; every write of an object with a last
  operation record (so every status write on the sample objects); every write of an
  object without finalizers.\<close>

definition refuseAll :: "Context \<Rightarrow> event list \<Rightarrow> ContainerRuntime \<Rightarrow> error option" where
  "refuseAll ctx history obj = Some (Err ''conflict'')"

definition refuseStatus :: "Context \<Rightarrow> event list \<Rightarrow> ContainerRuntime \<Rightarrow> error option" where
  "refuseStatus ctx history obj =
     (if LastOperation (Status obj) = None then None else Some (Err ''conflict''))"

definition refuseNoFinalizers ::
  "Context \<Rightarrow> event list \<Rightarrow> ContainerRuntime \<Rightarrow> error option" where
  "refuseNoFinalizers ctx history obj =
     (if Finalizers (ObjectMeta obj) = [] then Some (Err ''conflict'') else None)"

text \<open>A store that refuses the error report only.\<close>

definition refuseErrorStatus ::
  "Context \<Rightarrow> event list \<Rightarrow> ContainerRuntime \<Rightarrow> error option" where
  "refuseErrorStatus ctx history obj =
     (if LastError (Status obj) = None then None else Some (Err ''conflict''))"

text \<open>A watchdog that denies the ownership, and one that fails.\<close>

definition denyingWatchdog ::
  "Context \<Rightarrow> string \<Rightarrow> string \<Rightarrow> string \<Rightarrow> bool \<times> Context \<times> cleanup option \<times> error option" where
  "denyingWatchdog ctx ns shoot key = (False, ctx, None, None)"

definition failingWatchdog ::
  "Context \<Rightarrow> string \<Rightarrow> string \<Rightarrow> string \<Rightarrow> bool \<times> Context \<times> cleanup option \<times> error option" where
  "failingWatchdog ctx ns shoot key = (False, ctx, None, Some (Err ''watchdog unavailable''))"

text \<open>An actuator whose every method fails, with a store that refuses the error report;
  an actuator whose \<^verbatim>\<open>Reconcile\<close> panics; a migration under a watchdog that denies the
  ownership; a cluster without a shoot.\<close>

definition failingActuator :: deps where
  "failingActuator =
     sampleDeps\<lparr>store_update := refuseErrorStatus,
                actuator_Reconcile := (\<lambda>ctx obj cluster. Returned (Some (Err ''actuator failed''))),
                actuator_Restore := (\<lambda>ctx obj cluster. Returned (Some (Err ''actuator failed''))),
                actuator_Delete := (\<lambda>ctx obj cluster. Returned (Some (Err ''actuator failed''))),
                actuator_Migrate := (\<lambda>ctx obj cluster. Returned (Some (Err ''actuator failed'')))\<rparr>"

definition panickingActuator :: deps where
  "panickingActuator =
     sampleDeps\<lparr>actuator_Reconcile := (\<lambda>ctx obj cluster. Panicked ''boom'')\<rparr>"

definition contestedMigration :: deps where
  "contestedMigration =
     (depsFor migratingObject)\<lparr>GetOwnerCheckResultAndContext := denyingWatchdog\<rparr>"

definition noShoot :: deps where
  "noShoot =
     sampleDeps\<lparr>GetCluster := (\<lambda>ctx ns. Inr \<lparr>Shoot = None\<rparr>),
                GetOwnerCheckResultAndContext := denyingWatchdog\<rparr>"

text \<open>The failing actuator under a classification that takes its error for a wrapped
  one: the cause is "node not ready" and the result asks for a requeue after 30.\<close>

definition requeueingActuator :: deps where
  "requeueingActuator =
     failingActuator\<lparr>ReconcileErrCauseOrErr := (\<lambda>err. Err ''node not ready''),
                     requeueResult := (\<lambda>err. \<lparr>Requeue = True, RequeueAfter = 30\<rparr>)\<rparr>"

text \<open>A store that refuses the write of an object with neither a finalizer nor the
  operation annotation.\<close>

definition refuseCleared :: "Context \<Rightarrow> event list \<Rightarrow> ContainerRuntime \<Rightarrow> error option" where
  "refuseCleared ctx history obj =
     (if Finalizers (ObjectMeta obj) = [] \<and> Annotations (ObjectMeta obj) ''operation'' = None
      then Some (Err ''conflict'') else None)"

section \<open>Properties\<close>

subsection \<open>What a store write and a helper leave behind\<close>

lemma update_fst: "fst (update d ctx obj w) = store_update d ctx (trace w) obj"
  by (simp add: update_def split: option.split)

lemma update_trace:
  "trace (snd (update d ctx obj w)) =
     trace w @ [StoreUpdate obj (store_update d ctx (trace w) obj)]"
  by (simp add: update_def logEvent_def split: option.split)

lemma update_cr:
  "cr (snd (update d ctx obj w)) =
     (if store_update d ctx (trace w) obj = None then obj else cr w)"
  by (simp add: update_def logEvent_def split: option.split)

lemma logEvent_trace: "trace (logEvent e w) = trace w @ [e]"
  by (simp add: logEvent_def)

lemma logEvent_cr: "cr (logEvent e w) = cr w"
  by (simp add: logEvent_def)

lemmas helper_defs =
  EnsureFinalizer_def RemoveFinalizer_def DeleteAllFinalizers_def RemoveAnnotation_def
  statusUpdater_Processing_def statusUpdater_Success_def statusUpdater_Error_def

text \<open>No helper and no handler consults the watchdog or runs the cleanup.\<close>

lemma helpers_guard:
  "filter isGuardEvent (trace (snd (update d ctx obj w))) = filter isGuardEvent (trace w)"
  "filter isGuardEvent (trace (snd (EnsureFinalizer d ctx f w))) = filter isGuardEvent (trace w)"
  "filter isGuardEvent (trace (snd (RemoveFinalizer d ctx f w))) = filter isGuardEvent (trace w)"
  "filter isGuardEvent (trace (snd (DeleteAllFinalizers d ctx w))) = filter isGuardEvent (trace w)"
  "filter isGuardEvent (trace (snd (RemoveAnnotation d ctx a w))) = filter isGuardEvent (trace w)"
  "filter isGuardEvent (trace (snd (statusUpdater_Processing d ctx t m w))) =
     filter isGuardEvent (trace w)"
  "filter isGuardEvent (trace (snd (statusUpdater_Success d ctx t m w))) =
     filter isGuardEvent (trace w)"
  "filter isGuardEvent (trace (snd (statusUpdater_Error d ctx e t m w))) =
     filter isGuardEvent (trace w)"
  by (simp_all add: helper_defs update_trace)

lemma migrate_guard:
  "filter isGuardEvent (trace (snd (migrate d ctx cluster w))) = filter isGuardEvent (trace w)"
  by (simp add: migrate_def case_prod_beta helpers_guard logEvent_trace
      split: option.split callResult.split)

lemma delete_guard:
  "filter isGuardEvent (trace (snd (delete d ctx cluster w))) = filter isGuardEvent (trace w)"
  by (simp add: delete_def case_prod_beta helpers_guard logEvent_trace
      split: option.split callResult.split)

lemma restore_guard:
  "filter isGuardEvent (trace (snd (restore d ctx cluster w))) = filter isGuardEvent (trace w)"
  by (simp add: restore_def case_prod_beta helpers_guard logEvent_trace
      split: option.split callResult.split)

lemma reconcile_guard:
  "filter isGuardEvent (trace (snd (reconcile d ctx cluster t w))) =
     filter isGuardEvent (trace w)"
  by (simp add: reconcile_def case_prod_beta helpers_guard logEvent_trace
      split: option.split callResult.split)

lemma dispatch_guard:
  "filter isGuardEvent (trace (snd (dispatch d ctx cluster t w))) =
     filter isGuardEvent (trace w)"
  by (simp add: dispatch_def migrate_guard delete_guard restore_guard reconcile_guard)

lemma filter_isOwnerCheck_guard:
  "filter isOwnerCheck (filter isGuardEvent es) = filter isOwnerCheck es"
proof (induction es)
  case Nil
  show ?case by simp
next
  case (Cons e es)
  then show ?case by (cases e) simp_all
qed

lemma filter_isCleanup_guard:
  "filter isCleanup (filter isGuardEvent es) = filter isCleanup es"
proof (induction es)
  case Nil
  show ?case by simp
next
  case (Cons e es)
  then show ?case by (cases e) simp_all
qed

lemma dispatch_isOwnerCheck:
  "filter isOwnerCheck (trace (snd (dispatch d ctx cluster t w))) =
     filter isOwnerCheck (trace w)"
proof -
  have "filter isOwnerCheck (filter isGuardEvent (trace (snd (dispatch d ctx cluster t w)))) =
        filter isOwnerCheck (filter isGuardEvent (trace w))"
    by (simp only: dispatch_guard)
  then show ?thesis by (simp only: filter_isOwnerCheck_guard)
qed

lemma dispatch_isCleanup:
  "filter isCleanup (trace (snd (dispatch d ctx cluster t w))) = filter isCleanup (trace w)"
proof -
  have "filter isCleanup (filter isGuardEvent (trace (snd (dispatch d ctx cluster t w)))) =
        filter isCleanup (filter isGuardEvent (trace w))"
    by (simp only: dispatch_guard)
  then show ?thesis by (simp only: filter_isCleanup_guard)
qed

lemma update_failed:
  "update d ctx obj w = (Some err, w') \<Longrightarrow> w' = logEvent (StoreUpdate obj (Some err)) w"
  by (auto simp: update_def split: option.splits)

lemma Processing_failed:
  "statusUpdater_Processing d ctx t m w = (Some err, w') \<Longrightarrow>
     w' = logEvent (StoreUpdate (setLastOperation t LastOperationStateProcessing m (cr w))
                     (Some err)) w"
  unfolding statusUpdater_Processing_def by (rule update_failed)

lemma deferred_trace:
  "trace (snd (deferred cleanup r)) =
     (case cleanup of None \<Rightarrow> trace (snd r) | Some c \<Rightarrow> trace (snd r) @ [Cleanup c])"
  by (simp add: deferred_def logEvent_trace split: option.split)

subsection \<open>The finalizer invariant\<close>

lemma finalized_update:
  "finalized f n w \<Longrightarrow> ContainsFinalizer obj f \<Longrightarrow> finalized f n (snd (update d ctx obj w))"
  by (simp add: finalized_def update_trace update_cr)

lemma finalized_logEvent:
  "finalized f n w \<Longrightarrow> \<not> isStoreUpdate e \<Longrightarrow> finalized f n (logEvent e w)"
  by (cases e) (simp_all add: finalized_def logEvent_def)

lemma ContainsFinalizer_status:
  "ContainsFinalizer (setLastOperation t s m obj) f = ContainsFinalizer obj f"
  "ContainsFinalizer (setLastError e obj) f = ContainsFinalizer obj f"
  by (simp_all add: ContainsFinalizer_def setLastOperation_def setLastError_def)

lemma finalized_helpers:
  assumes "finalized f n w"
  shows "finalized f n (snd (statusUpdater_Processing d ctx t m w))"
    and "finalized f n (snd (statusUpdater_Success d ctx t m w))"
    and "finalized f n (snd (statusUpdater_Error d ctx e t m w))"
    and "finalized f n (snd (RemoveAnnotation d ctx a w))"
proof -
  from assms have c: "ContainsFinalizer (cr w) f"
    by (simp add: finalized_def)
  show "finalized f n (snd (statusUpdater_Processing d ctx t m w))"
    unfolding statusUpdater_Processing_def
    by (rule finalized_update [OF assms]) (simp add: ContainsFinalizer_status c)
  show "finalized f n (snd (statusUpdater_Success d ctx t m w))"
    unfolding statusUpdater_Success_def
    by (rule finalized_update [OF assms]) (simp add: ContainsFinalizer_status c)
  show "finalized f n (snd (statusUpdater_Error d ctx e t m w))"
    unfolding statusUpdater_Error_def
    by (rule finalized_update [OF assms]) (simp add: ContainsFinalizer_status c)
  show "finalized f n (snd (RemoveAnnotation d ctx a w))"
    unfolding RemoveAnnotation_def
    by (rule finalized_update [OF assms]) (use c in \<open>simp add: ContainsFinalizer_def\<close>)
qed

lemma finalized_EnsureFinalizer:
  assumes "fst (EnsureFinalizer d ctx f w) = None"
  shows "finalized f (length (trace w)) (snd (EnsureFinalizer d ctx f w))"
  using assms
  by (simp add: EnsureFinalizer_def finalized_def update_trace update_cr update_fst
      ContainsFinalizer_def setFinalizers_def split: if_splits)

lemma EnsureFinalizer_failed:
  assumes "fst (EnsureFinalizer d ctx f w) = Some err"
  shows "snd (EnsureFinalizer d ctx f w) =
           logEvent (StoreUpdate (setFinalizers (Finalizers (ObjectMeta (cr w)) @ [f]) (cr w))
                       (Some err)) w"
  using assms
  by (auto simp: EnsureFinalizer_def split: if_splits intro: update_failed [OF prod_eqI])

lemma finalizedD:
  "finalized f n w \<Longrightarrow> list_all (carriesFinalizer f) (drop n (trace w))"
  by (simp add: finalized_def)

lemma reconcile_finalized_world:
  assumes "fst (EnsureFinalizer d ctx (FinalizerName d) w) = None"
  shows "finalized (FinalizerName d) (length (trace w)) (snd (reconcile d ctx cluster t w))"
proof -
  note fin = finalized_EnsureFinalizer [OF assms]
  show ?thesis
    using assms
    by (simp add: reconcile_def case_prod_beta split: option.split callResult.split)
       (intro conjI impI allI finalized_helpers finalized_logEvent fin; simp)
qed

lemma restore_finalized_world:
  assumes "fst (EnsureFinalizer d ctx (FinalizerName d) w) = None"
  shows "finalized (FinalizerName d) (length (trace w)) (snd (restore d ctx cluster w))"
proof -
  note fin = finalized_EnsureFinalizer [OF assms]
  show ?thesis
    using assms
    by (simp add: restore_def case_prod_beta split: option.split callResult.split)
       (intro conjI impI allI finalized_helpers finalized_logEvent fin; simp)
qed

lemma reconcile_finalized:
  "list_all (carriesFinalizer (FinalizerName d))
     (drop (length (trace w)) (trace (snd (reconcile d ctx cluster t w))))"
proof (cases "fst (EnsureFinalizer d ctx (FinalizerName d) w)")
  case None
  then show ?thesis by (rule finalizedD [OF reconcile_finalized_world])
next
  case (Some err)
  then show ?thesis
    by (simp add: reconcile_def case_prod_beta EnsureFinalizer_failed logEvent_def
        ContainsFinalizer_def setFinalizers_def)
qed

lemma restore_finalized:
  "list_all (carriesFinalizer (FinalizerName d))
     (drop (length (trace w)) (trace (snd (restore d ctx cluster w))))"
proof (cases "fst (EnsureFinalizer d ctx (FinalizerName d) w)")
  case None
  then show ?thesis by (rule finalizedD [OF restore_finalized_world])
next
  case (Some err)
  then show ?thesis
    by (simp add: restore_def case_prod_beta EnsureFinalizer_failed logEvent_def
        ContainsFinalizer_def setFinalizers_def)
qed

lemmas sample_defs =
  sampleDeps_def sampleObject_def sampleCluster_def sampleClassifier_def sampleRequest_def
  finalizedObject_def migratingObject_def deletedObject_def restoringObject_def depsFor_def
  refuseAll_def refuseStatus_def refuseNoFinalizers_def refuseErrorStatus_def
  denyingWatchdog_def failingWatchdog_def

lemmas model_defs =
  helper_defs update_def logEvent_def ContainsFinalizer_def setFinalizers_def
  setLastOperation_def setLastError_def ReconcileErr_def

subsection \<open>The entry point: dispatch\<close>

text \<open>
  Claim C1. Once \<^verbatim>\<open>Reconcile\<close> has fetched the object, resolved the cluster and passed
  the failed-cluster check and the skip check (an invocation that reaches the skip check
  has passed the ownership guard, where the guard applies, and runs on the context and
  with the cleanup the watchdog handed back), it runs exactly the handler chosen in this
  order: migrate when the classified operation type is Migrate, otherwise delete when the
  deletion timestamp is set, otherwise restore when the type is Restore, otherwise
  reconcile. The handler is a function of the classified type and of the deletion
  marker alone, so the same input always gives the same handler.
\<close>

theorem Reconcile_dispatches_by_priority:
  assumes get: "client_Get d ctx request = Inr obj"
      and cl: "GetCluster d ctx (Namespace (ObjectMeta obj)) = Inr cluster"
      and nf: "\<not> IsFailed d cluster"
      and op: "operationType =
                 ComputeOperationType d (ObjectMeta obj) (LastOperation (Status obj))"
      and guard:
        "if Shoot cluster \<noteq> None \<and> operationType \<noteq> LastOperationTypeMigrate
         then GetOwnerCheckResultAndContext d ctx (Namespace (ObjectMeta obj))
                (ShootName (the (Shoot cluster)))
                (''containerruntime:'' @
                   ObjectName d (Namespace (ObjectMeta obj)) (Name (ObjectMeta obj)))
                = (True, ctx', cleanup, None) \<and>
              w = \<lparr>cr = obj,
                   trace = [OwnerCheck (Namespace (ObjectMeta obj))
                              (ShootName (the (Shoot cluster)))
                              (''containerruntime:'' @
                                 ObjectName d (Namespace (ObjectMeta obj))
                                   (Name (ObjectMeta obj)))]\<rparr>
         else ctx' = ctx \<and> cleanup = None \<and> w = \<lparr>cr = obj, trace = []\<rparr>"
      and skip: "\<not> ShouldSkipOperation d operationType obj"
  shows "Reconcile d ctx request =
           deferred cleanup
             (if operationType = LastOperationTypeMigrate then migrate d ctx' cluster w
              else if DeletionTimestamp (ObjectMeta obj) \<noteq> None then delete d ctx' cluster w
              else if operationType = LastOperationTypeRestore then restore d ctx' cluster w
              else reconcile d ctx' cluster operationType w)"
proof (cases "Shoot cluster \<noteq> None \<and> operationType \<noteq> LastOperationTypeMigrate")
  case True
  with guard get cl nf op skip show ?thesis
    by (simp add: Reconcile_def dispatch_def Let_def)
next
  case False
  with guard get cl nf op skip show ?thesis
    by (auto simp add: Reconcile_def dispatch_def Let_def deferred_def)
qed

theorem Reconcile_dispatches_by_priority_witness:
  "client_Get sampleDeps 0 sampleRequest = Inr sampleObject
   \<and> GetCluster sampleDeps 0 (Namespace (ObjectMeta sampleObject)) = Inr sampleCluster
   \<and> \<not> IsFailed sampleDeps sampleCluster
   \<and> ComputeOperationType sampleDeps (ObjectMeta sampleObject)
         (LastOperation (Status sampleObject)) = LastOperationTypeReconcile
   \<and> GetOwnerCheckResultAndContext sampleDeps 0 ''shoot--foo--bar'' ''bar''
         ''containerruntime:shoot--foo--bar/gvisor'' = (True, Suc 0, Some 7, None)
   \<and> \<not> ShouldSkipOperation sampleDeps LastOperationTypeReconcile sampleObject
   \<and> Reconcile sampleDeps 0 sampleRequest =
        deferred (Some 7)
          (reconcile sampleDeps (Suc 0) sampleCluster LastOperationTypeReconcile
             \<lparr>cr = sampleObject,
              trace = [OwnerCheck ''shoot--foo--bar'' ''bar''
                         ''containerruntime:shoot--foo--bar/gvisor'']\<rparr>)
   \<and> ComputeOperationType (depsFor migratingObject) (ObjectMeta migratingObject)
         (LastOperation (Status migratingObject)) = LastOperationTypeMigrate
   \<and> Reconcile (depsFor migratingObject) 0 sampleRequest =
        migrate (depsFor migratingObject) 0 sampleCluster \<lparr>cr = migratingObject, trace = []\<rparr>
   \<and> ComputeOperationType (depsFor deletedObject) (ObjectMeta deletedObject)
         (LastOperation (Status deletedObject)) = LastOperationTypeDelete
   \<and> Reconcile (depsFor deletedObject) 0 sampleRequest =
        deferred (Some 7)
          (delete (depsFor deletedObject) (Suc 0) sampleCluster
             \<lparr>cr = deletedObject,
              trace = [OwnerCheck ''shoot--foo--bar'' ''bar''
                         ''containerruntime:shoot--foo--bar/gvisor'']\<rparr>)
   \<and> ComputeOperationType (depsFor restoringObject) (ObjectMeta restoringObject)
         (LastOperation (Status restoringObject)) = LastOperationTypeRestore
   \<and> Reconcile (depsFor restoringObject) 0 sampleRequest =
        deferred (Some 7)
          (restore (depsFor restoringObject) (Suc 0) sampleCluster
             \<lparr>cr = restoringObject,
              trace = [OwnerCheck ''shoot--foo--bar'' ''bar''
                         ''containerruntime:shoot--foo--bar/gvisor'']\<rparr>)"
  using
    Reconcile_dispatches_by_priority [of sampleDeps 0 sampleRequest sampleObject sampleCluster
      LastOperationTypeReconcile "Suc 0" "Some 7"
      "\<lparr>cr = sampleObject,
        trace = [OwnerCheck ''shoot--foo--bar'' ''bar''
                   ''containerruntime:shoot--foo--bar/gvisor'']\<rparr>"]
    Reconcile_dispatches_by_priority [of "depsFor migratingObject" 0 sampleRequest
      migratingObject sampleCluster LastOperationTypeMigrate 0 None
      "\<lparr>cr = migratingObject, trace = []\<rparr>"]
    Reconcile_dispatches_by_priority [of "depsFor deletedObject" 0 sampleRequest
      deletedObject sampleCluster LastOperationTypeDelete "Suc 0" "Some 7"
      "\<lparr>cr = deletedObject,
        trace = [OwnerCheck ''shoot--foo--bar'' ''bar''
                   ''containerruntime:shoot--foo--bar/gvisor'']\<rparr>"]
    Reconcile_dispatches_by_priority [of "depsFor restoringObject" 0 sampleRequest
      restoringObject sampleCluster LastOperationTypeRestore "Suc 0" "Some 7"
      "\<lparr>cr = restoringObject,
        trace = [OwnerCheck ''shoot--foo--bar'' ''bar''
                   ''containerruntime:shoot--foo--bar/gvisor'']\<rparr>"]
  by (simp add: sample_defs setFinalizers_def setLastOperation_def deferred_def)

subsection \<open>The entry point: short circuits and the ownership guard\<close>

text \<open>
  Claim C6. When the resolved cluster is reported failed, \<^verbatim>\<open>Reconcile\<close> returns the empty
  result without an error and its log of calls is empty: no handler has run, the watchdog
  was not consulted and the store was not written, whatever the classifier would say.
\<close>

theorem failed_cluster_short_circuit:
  assumes "client_Get d ctx request = Inr obj"
      and "GetCluster d ctx (Namespace (ObjectMeta obj)) = Inr cluster"
      and "IsFailed d cluster"
  shows "Reconcile d ctx request = (Return emptyResult None, \<lparr>cr = obj, trace = []\<rparr>)"
  using assms by (simp add: Reconcile_def)

theorem failed_cluster_short_circuit_witness:
  "client_Get (sampleDeps\<lparr>IsFailed := (\<lambda>cluster. True)\<rparr>) 0 sampleRequest = Inr sampleObject
   \<and> GetCluster (sampleDeps\<lparr>IsFailed := (\<lambda>cluster. True)\<rparr>) 0
         (Namespace (ObjectMeta sampleObject)) = Inr sampleCluster
   \<and> IsFailed (sampleDeps\<lparr>IsFailed := (\<lambda>cluster. True)\<rparr>) sampleCluster
   \<and> Reconcile (sampleDeps\<lparr>IsFailed := (\<lambda>cluster. True)\<rparr>) 0 sampleRequest =
        (Return emptyResult None, \<lparr>cr = sampleObject, trace = []\<rparr>)"
  using failed_cluster_short_circuit
          [of "sampleDeps\<lparr>IsFailed := (\<lambda>cluster. True)\<rparr>" 0 sampleRequest
              sampleObject sampleCluster]
  by (simp add: sampleDeps_def)

text \<open>
  Claim C3. With a live shoot and an operation other than Migrate, when the watchdog
  answers without an error that this seed is not the owner, \<^verbatim>\<open>Reconcile\<close> returns the
  error "this seed is not the owner of shoot" followed by the shoot's name, and when the
  watchdog returns an error, \<^verbatim>\<open>Reconcile\<close> returns that error. In both cases the only
  call in the log is the watchdog's check: no actuator method, no handler and no store
  write.
\<close>

theorem ownership_contested:
  assumes get: "client_Get d ctx request = Inr obj"
      and cl: "GetCluster d ctx (Namespace (ObjectMeta obj)) = Inr cluster"
      and nf: "\<not> IsFailed d cluster"
      and live: "Shoot cluster = Some shoot"
      and op: "ComputeOperationType d (ObjectMeta obj) (LastOperation (Status obj))
                 \<noteq> LastOperationTypeMigrate"
      and k: "key = ''containerruntime:'' @
                ObjectName d (Namespace (ObjectMeta obj)) (Name (ObjectMeta obj))"
      and answer: "GetOwnerCheckResultAndContext d ctx (Namespace (ObjectMeta obj))
                     (ShootName shoot) key = (ok, watchdogCtx, cleanup, err)"
  shows "(err = None \<and> \<not> ok \<longrightarrow>
            Reconcile d ctx request =
              (Return emptyResult
                 (Some (Err (''this seed is not the owner of shoot '' @
                    ObjectName d (ShootNamespace shoot) (ShootName shoot)))),
               \<lparr>cr = obj,
                trace = [OwnerCheck (Namespace (ObjectMeta obj)) (ShootName shoot) key]\<rparr>))
         \<and> (\<forall>e. err = Some e \<longrightarrow>
            Reconcile d ctx request =
              (Return emptyResult (Some e),
               \<lparr>cr = obj,
                trace = [OwnerCheck (Namespace (ObjectMeta obj)) (ShootName shoot) key]\<rparr>))"
  using assms by (simp add: Reconcile_def Let_def)

theorem ownership_contested_witness:
  "ComputeOperationType sampleDeps (ObjectMeta sampleObject)
      (LastOperation (Status sampleObject)) \<noteq> LastOperationTypeMigrate
   \<and> Shoot sampleCluster = Some \<lparr>ShootNamespace = ''garden-foo'', ShootName = ''bar''\<rparr>
   \<and> denyingWatchdog 0 ''shoot--foo--bar'' ''bar'' ''containerruntime:shoot--foo--bar/gvisor''
       = (False, 0, None, None)
   \<and> Reconcile (sampleDeps\<lparr>GetOwnerCheckResultAndContext := denyingWatchdog\<rparr>) 0 sampleRequest =
       (Return emptyResult (Some (Err ''this seed is not the owner of shoot garden-foo/bar'')),
        \<lparr>cr = sampleObject,
         trace = [OwnerCheck ''shoot--foo--bar'' ''bar''
                    ''containerruntime:shoot--foo--bar/gvisor'']\<rparr>)
   \<and> failingWatchdog 0 ''shoot--foo--bar'' ''bar'' ''containerruntime:shoot--foo--bar/gvisor''
       = (False, 0, None, Some (Err ''watchdog unavailable''))
   \<and> Reconcile (sampleDeps\<lparr>GetOwnerCheckResultAndContext := failingWatchdog\<rparr>) 0 sampleRequest =
       (Return emptyResult (Some (Err ''watchdog unavailable'')),
        \<lparr>cr = sampleObject,
         trace = [OwnerCheck ''shoot--foo--bar'' ''bar''
                    ''containerruntime:shoot--foo--bar/gvisor'']\<rparr>)"
  using
    ownership_contested [of "sampleDeps\<lparr>GetOwnerCheckResultAndContext := denyingWatchdog\<rparr>"
      0 sampleRequest sampleObject sampleCluster
      "\<lparr>ShootNamespace = ''garden-foo'', ShootName = ''bar''\<rparr>"
      "''containerruntime:shoot--foo--bar/gvisor''" False 0 None None]
    ownership_contested [of "sampleDeps\<lparr>GetOwnerCheckResultAndContext := failingWatchdog\<rparr>"
      0 sampleRequest sampleObject sampleCluster
      "\<lparr>ShootNamespace = ''garden-foo'', ShootName = ''bar''\<rparr>"
      "''containerruntime:shoot--foo--bar/gvisor''" False 0 None
      "Some (Err ''watchdog unavailable'')"]
  by (simp add: sample_defs)

lemmas scenario_defs =
  failingActuator_def panickingActuator_def contestedMigration_def noShoot_def refuseCleared_def
  requeueingActuator_def

text \<open>
  Claim C4, as the code has it. When the classified operation type is Migrate, or the
  cluster has no shoot, the watchdog is never consulted, whatever it would answer:
  \<^verbatim>\<open>Reconcile\<close> goes to the switch with the caller's context. For Migrate, unless the
  skip predicate holds, it runs the migrate handler, and the actuator's \<^verbatim>\<open>Migrate\<close> is
  called once the handler's Processing status write has succeeded.
\<close>

theorem migrate_bypasses_ownership_guard:
  assumes get: "client_Get d ctx request = Inr obj"
      and cl: "GetCluster d ctx (Namespace (ObjectMeta obj)) = Inr cluster"
      and nf: "\<not> IsFailed d cluster"
      and op: "operationType =
                 ComputeOperationType d (ObjectMeta obj) (LastOperation (Status obj))"
      and bypass: "operationType = LastOperationTypeMigrate \<or> Shoot cluster = None"
  shows "filter isOwnerCheck (trace (snd (Reconcile d ctx request))) = []
         \<and> Reconcile d ctx request =
             dispatch d ctx cluster operationType \<lparr>cr = obj, trace = []\<rparr>
         \<and> (operationType = LastOperationTypeMigrate \<and>
            \<not> ShouldSkipOperation d operationType obj \<longrightarrow>
              Reconcile d ctx request = migrate d ctx cluster \<lparr>cr = obj, trace = []\<rparr> \<and>
              (fst (statusUpdater_Processing d ctx LastOperationTypeMigrate
                      ''Migrating the containerruntime'' \<lparr>cr = obj, trace = []\<rparr>) = None \<longrightarrow>
                 ActuatorMigrate ctx \<in> set (trace (snd (Reconcile d ctx request)))))"
proof -
  have eq: "Reconcile d ctx request =
              dispatch d ctx cluster operationType \<lparr>cr = obj, trace = []\<rparr>"
    using assms by (auto simp add: Reconcile_def Let_def)
  have none: "filter isOwnerCheck (trace (snd (Reconcile d ctx request))) = []"
    by (simp add: eq dispatch_isOwnerCheck)
  have mig: "Reconcile d ctx request = migrate d ctx cluster \<lparr>cr = obj, trace = []\<rparr>"
    if "operationType = LastOperationTypeMigrate" "\<not> ShouldSkipOperation d operationType obj"
    using that by (simp add: eq dispatch_def)
  have act: "ActuatorMigrate ctx \<in> set (trace (snd (migrate d ctx cluster v)))"
    if "fst (statusUpdater_Processing d ctx LastOperationTypeMigrate
               ''Migrating the containerruntime'' v) = None" for v
    using that
    by (simp add: migrate_def case_prod_beta logEvent_trace helper_defs update_trace
        split: option.split callResult.split)
  show ?thesis
  proof (intro conjI impI)
    show "filter isOwnerCheck (trace (snd (Reconcile d ctx request))) = []"
      by (rule none)
    show "Reconcile d ctx request =
            dispatch d ctx cluster operationType \<lparr>cr = obj, trace = []\<rparr>"
      by (rule eq)
  next
    assume m: "operationType = LastOperationTypeMigrate \<and>
               \<not> ShouldSkipOperation d operationType obj"
    then show r: "Reconcile d ctx request = migrate d ctx cluster \<lparr>cr = obj, trace = []\<rparr>"
      using mig by blast
    assume "fst (statusUpdater_Processing d ctx LastOperationTypeMigrate
                   ''Migrating the containerruntime'' \<lparr>cr = obj, trace = []\<rparr>) = None"
    then show "ActuatorMigrate ctx \<in> set (trace (snd (Reconcile d ctx request)))"
      by (simp only: r act)
  qed
qed

theorem migrate_bypasses_ownership_guard_witness:
  "ComputeOperationType contestedMigration (ObjectMeta migratingObject)
      (LastOperation (Status migratingObject)) = LastOperationTypeMigrate
   \<and> GetOwnerCheckResultAndContext contestedMigration 0 ''shoot--foo--bar'' ''bar''
        ''containerruntime:shoot--foo--bar/gvisor'' = (False, 0, None, None)
   \<and> \<not> ShouldSkipOperation contestedMigration LastOperationTypeMigrate migratingObject
   \<and> fst (statusUpdater_Processing contestedMigration 0 LastOperationTypeMigrate
             ''Migrating the containerruntime'' \<lparr>cr = migratingObject, trace = []\<rparr>) = None
   \<and> filter isOwnerCheck (trace (snd (Reconcile contestedMigration 0 sampleRequest))) = []
   \<and> Reconcile contestedMigration 0 sampleRequest =
        migrate contestedMigration 0 sampleCluster \<lparr>cr = migratingObject, trace = []\<rparr>
   \<and> ActuatorMigrate 0 \<in> set (trace (snd (Reconcile contestedMigration 0 sampleRequest)))
   \<and> GetCluster noShoot 0 ''shoot--foo--bar'' = Inr \<lparr>Shoot = None\<rparr>
   \<and> filter isOwnerCheck (trace (snd (Reconcile noShoot 0 sampleRequest))) = []"
proof -
  have get: "client_Get contestedMigration 0 sampleRequest = Inr migratingObject"
    and cl: "GetCluster contestedMigration 0 (Namespace (ObjectMeta migratingObject))
               = Inr sampleCluster"
    and nf: "\<not> IsFailed contestedMigration sampleCluster"
    and skip: "\<not> ShouldSkipOperation contestedMigration LastOperationTypeMigrate
                   migratingObject"
    and deny: "GetOwnerCheckResultAndContext contestedMigration 0 ''shoot--foo--bar'' ''bar''
        ''containerruntime:shoot--foo--bar/gvisor'' = (False, 0, None, None)"
    by (simp_all add: sample_defs scenario_defs)
  have op: "LastOperationTypeMigrate =
      ComputeOperationType contestedMigration (ObjectMeta migratingObject)
        (LastOperation (Status migratingObject))"
    by (simp add: sample_defs scenario_defs setFinalizers_def)
  have processing:
    "fst (statusUpdater_Processing contestedMigration 0 LastOperationTypeMigrate
            ''Migrating the containerruntime'' \<lparr>cr = migratingObject, trace = []\<rparr>) = None"
    by (simp add: statusUpdater_Processing_def update_fst sample_defs scenario_defs)
  have get': "client_Get noShoot 0 sampleRequest = Inr sampleObject"
    and cl': "GetCluster noShoot 0 (Namespace (ObjectMeta sampleObject)) = Inr \<lparr>Shoot = None\<rparr>"
    and nf': "\<not> IsFailed noShoot \<lparr>Shoot = None\<rparr>"
    and none: "GetCluster noShoot 0 ''shoot--foo--bar'' = Inr \<lparr>Shoot = None\<rparr>"
    by (simp_all add: sample_defs scenario_defs)
  have bypass: "LastOperationTypeMigrate = LastOperationTypeMigrate \<or> Shoot sampleCluster = None"
    and bypass': "ComputeOperationType noShoot (ObjectMeta sampleObject)
        (LastOperation (Status sampleObject)) = LastOperationTypeMigrate \<or>
        Shoot \<lparr>Shoot = None\<rparr> = None"
    by simp_all
  from migrate_bypasses_ownership_guard [OF get cl nf op bypass] skip processing
  have "filter isOwnerCheck (trace (snd (Reconcile contestedMigration 0 sampleRequest))) = []"
    and "Reconcile contestedMigration 0 sampleRequest =
           migrate contestedMigration 0 sampleCluster \<lparr>cr = migratingObject, trace = []\<rparr>"
    and "ActuatorMigrate 0 \<in> set (trace (snd (Reconcile contestedMigration 0 sampleRequest)))"
    by blast+
  moreover
  from migrate_bypasses_ownership_guard [OF get' cl' nf' refl bypass']
  have "filter isOwnerCheck (trace (snd (Reconcile noShoot 0 sampleRequest))) = []"
    by blast
  ultimately show ?thesis
    using op skip processing deny none by simp
qed

text \<open>
  Claim C4 as stated fails: a migration whose Processing status write the store refuses
  returns the store's error, and the actuator's \<^verbatim>\<open>Migrate\<close> is not called.
\<close>

theorem migrate_actuator_not_reached_counterexample:
  "ComputeOperationType (contestedMigration\<lparr>store_update := refuseAll\<rparr>)
      (ObjectMeta migratingObject) (LastOperation (Status migratingObject))
      = LastOperationTypeMigrate
   \<and> Reconcile (contestedMigration\<lparr>store_update := refuseAll\<rparr>) 0 sampleRequest =
       (Return emptyResult (Some (Err ''conflict'')),
        \<lparr>cr = migratingObject,
         trace = [StoreUpdate
                    (setLastOperation LastOperationTypeMigrate LastOperationStateProcessing
                       ''Migrating the containerruntime'' migratingObject)
                    (Some (Err ''conflict''))]\<rparr>)
   \<and> filter isActuatorCall
        (trace (snd (Reconcile (contestedMigration\<lparr>store_update := refuseAll\<rparr>) 0
                       sampleRequest))) = []"
  by (simp add: Reconcile_def dispatch_def migrate_def sample_defs scenario_defs model_defs)

subsection \<open>The phase handlers\<close>

text \<open>
  Claim C5. On an object that does not carry this controller's finalizer the delete
  handler returns the empty result without an error and leaves the world as it was: the
  actuator's \<^verbatim>\<open>Delete\<close> is not called and nothing is written.
\<close>

theorem delete_without_finalizer_is_noop:
  assumes "\<not> ContainsFinalizer (cr w) (FinalizerName d)"
  shows "delete d ctx cluster w = (Return emptyResult None, w)"
  using assms by (simp add: delete_def)

theorem delete_without_finalizer_is_noop_witness:
  "\<not> ContainsFinalizer (cr \<lparr>cr = sampleObject, trace = []\<rparr>) (FinalizerName sampleDeps)
   \<and> delete sampleDeps 0 sampleCluster \<lparr>cr = sampleObject, trace = []\<rparr> =
       (Return emptyResult None, \<lparr>cr = sampleObject, trace = []\<rparr>)"
  using delete_without_finalizer_is_noop
          [of "\<lparr>cr = sampleObject, trace = []\<rparr>" sampleDeps 0 sampleCluster]
  by (simp add: sampleDeps_def sampleObject_def ContainsFinalizer_def)

text \<open>
  Claim C8. In each of the four handlers, when the Processing status write fails the
  handler returns that error at once: the world it leaves is the one before the write
  plus the refused write in the log, so the actuator was not called and nothing was
  written afterwards. (In reconcile and restore the write comes after the finalizer has
  been ensured, in delete after the finalizer has been found.)
\<close>

theorem Processing_failure_aborts:
  "(EnsureFinalizer d ctx (FinalizerName d) w = (None, w1) \<and>
    statusUpdater_Processing d ctx operationType ''Reconciling the containerruntime'' w1
      = (Some err, w') \<longrightarrow>
      reconcile d ctx cluster operationType w = (Return emptyResult (Some err), w') \<and>
      w' = logEvent (StoreUpdate (setLastOperation operationType LastOperationStateProcessing
                       ''Reconciling the containerruntime'' (cr w1)) (Some err)) w1)
   \<and>
   (EnsureFinalizer d ctx (FinalizerName d) w = (None, w1) \<and>
    statusUpdater_Processing d ctx LastOperationTypeRestore ''Restoring the containerruntime'' w1
      = (Some err, w') \<longrightarrow>
      restore d ctx cluster w = (Return emptyResult (Some err), w') \<and>
      w' = logEvent (StoreUpdate (setLastOperation LastOperationTypeRestore
                       LastOperationStateProcessing ''Restoring the containerruntime'' (cr w1))
                       (Some err)) w1)
   \<and>
   (ContainsFinalizer (cr w) (FinalizerName d) \<and>
    statusUpdater_Processing d ctx LastOperationTypeDelete ''Deleting the containerruntime'' w
      = (Some err, w') \<longrightarrow>
      delete d ctx cluster w = (Return emptyResult (Some err), w') \<and>
      w' = logEvent (StoreUpdate (setLastOperation LastOperationTypeDelete
                       LastOperationStateProcessing ''Deleting the containerruntime'' (cr w))
                       (Some err)) w)
   \<and>
   (statusUpdater_Processing d ctx LastOperationTypeMigrate ''Migrating the containerruntime'' w
      = (Some err, w') \<longrightarrow>
      migrate d ctx cluster w = (Return emptyResult (Some err), w') \<and>
      w' = logEvent (StoreUpdate (setLastOperation LastOperationTypeMigrate
                       LastOperationStateProcessing ''Migrating the containerruntime'' (cr w))
                       (Some err)) w)"
proof (intro conjI impI)
  assume a: "EnsureFinalizer d ctx (FinalizerName d) w = (None, w1) \<and>
    statusUpdater_Processing d ctx operationType ''Reconciling the containerruntime'' w1
      = (Some err, w')"
  then show "reconcile d ctx cluster operationType w = (Return emptyResult (Some err), w')"
    by (simp add: reconcile_def)
  from a show "w' = logEvent (StoreUpdate (setLastOperation operationType
      LastOperationStateProcessing ''Reconciling the containerruntime'' (cr w1)) (Some err)) w1"
    by (blast dest: Processing_failed)
next
  assume a: "EnsureFinalizer d ctx (FinalizerName d) w = (None, w1) \<and>
    statusUpdater_Processing d ctx LastOperationTypeRestore ''Restoring the containerruntime'' w1
      = (Some err, w')"
  then show "restore d ctx cluster w = (Return emptyResult (Some err), w')"
    by (simp add: restore_def)
  from a show "w' = logEvent (StoreUpdate (setLastOperation LastOperationTypeRestore
      LastOperationStateProcessing ''Restoring the containerruntime'' (cr w1)) (Some err)) w1"
    by (blast dest: Processing_failed)
next
  assume a: "ContainsFinalizer (cr w) (FinalizerName d) \<and>
    statusUpdater_Processing d ctx LastOperationTypeDelete ''Deleting the containerruntime'' w
      = (Some err, w')"
  then show "delete d ctx cluster w = (Return emptyResult (Some err), w')"
    by (simp add: delete_def)
  from a show "w' = logEvent (StoreUpdate (setLastOperation LastOperationTypeDelete
      LastOperationStateProcessing ''Deleting the containerruntime'' (cr w)) (Some err)) w"
    by (blast dest: Processing_failed)
next
  assume a: "statusUpdater_Processing d ctx LastOperationTypeMigrate
      ''Migrating the containerruntime'' w = (Some err, w')"
  then show "migrate d ctx cluster w = (Return emptyResult (Some err), w')"
    by (simp add: migrate_def)
  from a show "w' = logEvent (StoreUpdate (setLastOperation LastOperationTypeMigrate
      LastOperationStateProcessing ''Migrating the containerruntime'' (cr w)) (Some err)) w"
    by (blast dest: Processing_failed)
qed

theorem Processing_failure_aborts_witness:
  "EnsureFinalizer (sampleDeps\<lparr>store_update := refuseStatus\<rparr>) 0
      (FinalizerName (sampleDeps\<lparr>store_update := refuseStatus\<rparr>))
      \<lparr>cr = finalizedObject, trace = []\<rparr> = (None, \<lparr>cr = finalizedObject, trace = []\<rparr>)
   \<and> ContainsFinalizer finalizedObject (FinalizerName (sampleDeps\<lparr>store_update := refuseStatus\<rparr>))
   \<and> reconcile (sampleDeps\<lparr>store_update := refuseStatus\<rparr>) 0 sampleCluster
        LastOperationTypeReconcile \<lparr>cr = finalizedObject, trace = []\<rparr> =
       (Return emptyResult (Some (Err ''conflict'')),
        \<lparr>cr = finalizedObject,
         trace = [StoreUpdate (setLastOperation LastOperationTypeReconcile
                    LastOperationStateProcessing ''Reconciling the containerruntime''
                    finalizedObject) (Some (Err ''conflict''))]\<rparr>)
   \<and> restore (sampleDeps\<lparr>store_update := refuseStatus\<rparr>) 0 sampleCluster
        \<lparr>cr = finalizedObject, trace = []\<rparr> =
       (Return emptyResult (Some (Err ''conflict'')),
        \<lparr>cr = finalizedObject,
         trace = [StoreUpdate (setLastOperation LastOperationTypeRestore
                    LastOperationStateProcessing ''Restoring the containerruntime''
                    finalizedObject) (Some (Err ''conflict''))]\<rparr>)
   \<and> delete (sampleDeps\<lparr>store_update := refuseStatus\<rparr>) 0 sampleCluster
        \<lparr>cr = finalizedObject, trace = []\<rparr> =
       (Return emptyResult (Some (Err ''conflict'')),
        \<lparr>cr = finalizedObject,
         trace = [StoreUpdate (setLastOperation LastOperationTypeDelete
                    LastOperationStateProcessing ''Deleting the containerruntime''
                    finalizedObject) (Some (Err ''conflict''))]\<rparr>)
   \<and> migrate (sampleDeps\<lparr>store_update := refuseStatus\<rparr>) 0 sampleCluster
        \<lparr>cr = finalizedObject, trace = []\<rparr> =
       (Return emptyResult (Some (Err ''conflict'')),
        \<lparr>cr = finalizedObject,
         trace = [StoreUpdate (setLastOperation LastOperationTypeMigrate
                    LastOperationStateProcessing ''Migrating the containerruntime''
                    finalizedObject) (Some (Err ''conflict''))]\<rparr>)"
  using
    Processing_failure_aborts [where d = "sampleDeps\<lparr>store_update := refuseStatus\<rparr>"
      and ctx = 0 and cluster = sampleCluster and err = "Err ''conflict''"
      and w = "\<lparr>cr = finalizedObject, trace = []\<rparr>"
      and ?w1.0 = "\<lparr>cr = finalizedObject, trace = []\<rparr>"
      and operationType = LastOperationTypeReconcile
      and w' = "\<lparr>cr = finalizedObject,
         trace = [StoreUpdate (setLastOperation LastOperationTypeReconcile
                    LastOperationStateProcessing ''Reconciling the containerruntime''
                    finalizedObject) (Some (Err ''conflict''))]\<rparr>"]
    Processing_failure_aborts [where d = "sampleDeps\<lparr>store_update := refuseStatus\<rparr>"
      and ctx = 0 and cluster = sampleCluster and err = "Err ''conflict''"
      and w = "\<lparr>cr = finalizedObject, trace = []\<rparr>"
      and ?w1.0 = "\<lparr>cr = finalizedObject, trace = []\<rparr>"
      and w' = "\<lparr>cr = finalizedObject,
         trace = [StoreUpdate (setLastOperation LastOperationTypeRestore
                    LastOperationStateProcessing ''Restoring the containerruntime''
                    finalizedObject) (Some (Err ''conflict''))]\<rparr>"]
    Processing_failure_aborts [where d = "sampleDeps\<lparr>store_update := refuseStatus\<rparr>"
      and ctx = 0 and cluster = sampleCluster and err = "Err ''conflict''"
      and w = "\<lparr>cr = finalizedObject, trace = []\<rparr>"
      and w' = "\<lparr>cr = finalizedObject,
         trace = [StoreUpdate (setLastOperation LastOperationTypeDelete
                    LastOperationStateProcessing ''Deleting the containerruntime''
                    finalizedObject) (Some (Err ''conflict''))]\<rparr>"]
    Processing_failure_aborts [where d = "sampleDeps\<lparr>store_update := refuseStatus\<rparr>"
      and ctx = 0 and cluster = sampleCluster and err = "Err ''conflict''"
      and w = "\<lparr>cr = finalizedObject, trace = []\<rparr>"
      and w' = "\<lparr>cr = finalizedObject,
         trace = [StoreUpdate (setLastOperation LastOperationTypeMigrate
                    LastOperationStateProcessing ''Migrating the containerruntime''
                    finalizedObject) (Some (Err ''conflict''))]\<rparr>"]
  by (simp add: sample_defs model_defs)



text \<open>
  Claim C2, as the code has it. Whenever the migrate handler returns without an error,
  the object has no finalizer left, whatever it had before, and no operation annotation.
  Once the actuator's \<^verbatim>\<open>Migrate\<close> and the Succeeded status write have succeeded, a
  failure of the write that clears the finalizers, or of the write that clears the
  annotation, makes the handler return a new error built by \<^verbatim>\<open>fmt.Errorf\<close>: a fixed
  prefix followed by the write's error.
\<close>

theorem migrate_clears_everything:
  "(fst (migrate d ctx cluster w) = Return emptyResult None \<longrightarrow>
      Finalizers (ObjectMeta (cr (snd (migrate d ctx cluster w)))) = [] \<and>
      Annotations (ObjectMeta (cr (snd (migrate d ctx cluster w)))) (GardenerOperation d) = None)
   \<and>
   (statusUpdater_Processing d ctx LastOperationTypeMigrate ''Migrating the containerruntime'' w
      = (None, w1) \<and>
    actuator_Migrate d ctx (cr w1) cluster = Returned None \<and>
    statusUpdater_Success d ctx LastOperationTypeMigrate ''Successfully migrated containerruntime''
      (logEvent (ActuatorMigrate ctx) w1) = (None, w2) \<longrightarrow>
      (DeleteAllFinalizers d ctx w2 = (Some err, w3) \<longrightarrow>
         migrate d ctx cluster w =
           (Return emptyResult
              (Some (Errorf ''error removing finalizers from the containerruntime: '' err)), w3))
      \<and>
      (DeleteAllFinalizers d ctx w2 = (None, w3) \<and>
       RemoveAnnotation d ctx (GardenerOperation d) w3 = (Some err, w4) \<longrightarrow>
         migrate d ctx cluster w =
           (Return emptyResult
              (Some (Errorf ''error removing annotation from containerruntime: '' err)), w4))
      \<and>
      (DeleteAllFinalizers d ctx w2 = (None, w3) \<and>
       RemoveAnnotation d ctx (GardenerOperation d) w3 = (None, w4) \<longrightarrow>
         migrate d ctx cluster w = (Return emptyResult None, w4) \<and>
         Finalizers (ObjectMeta (cr w4)) = [] \<and>
         Annotations (ObjectMeta (cr w4)) (GardenerOperation d) = None))"
proof -
  have cleared: "Finalizers (ObjectMeta (cr v4)) = [] \<and>
         Annotations (ObjectMeta (cr v4)) (GardenerOperation d) = None"
    if "DeleteAllFinalizers d ctx v2 = (None, v3)"
      and "RemoveAnnotation d ctx (GardenerOperation d) v3 = (None, v4)" for v2 v3 v4
  proof -
    from that(1) have "fst (DeleteAllFinalizers d ctx v2) = None"
      and "snd (DeleteAllFinalizers d ctx v2) = v3"
      by simp_all
    then have v3: "Finalizers (ObjectMeta (cr v3)) = []"
      by (auto simp: DeleteAllFinalizers_def update_fst update_cr setFinalizers_def)
    from that(2) have "fst (RemoveAnnotation d ctx (GardenerOperation d) v3) = None"
      and "snd (RemoveAnnotation d ctx (GardenerOperation d) v3) = v4"
      by simp_all
    then have "cr v4 = (cr v3)\<lparr>ObjectMeta := (ObjectMeta (cr v3))\<lparr>Annotations :=
          (Annotations (ObjectMeta (cr v3)))(GardenerOperation d := None)\<rparr>\<rparr>"
      by (auto simp: RemoveAnnotation_def update_fst update_cr)
    with v3 show ?thesis by simp
  qed
  have first: "Finalizers (ObjectMeta (cr (snd (migrate d ctx cluster w)))) = [] \<and>
      Annotations (ObjectMeta (cr (snd (migrate d ctx cluster w)))) (GardenerOperation d) = None"
    if "fst (migrate d ctx cluster w) = Return emptyResult None"
    using that
    by (auto simp: migrate_def ReconcileErr_def dest: cleared
        split: prod.splits option.splits callResult.splits)
  show ?thesis
  proof (intro conjI impI)
    assume "fst (migrate d ctx cluster w) = Return emptyResult None"
    then show "Finalizers (ObjectMeta (cr (snd (migrate d ctx cluster w)))) = []"
      and "Annotations (ObjectMeta (cr (snd (migrate d ctx cluster w)))) (GardenerOperation d)
             = None"
      using first by simp_all
  next
    assume s: "statusUpdater_Processing d ctx LastOperationTypeMigrate
        ''Migrating the containerruntime'' w = (None, w1) \<and>
      actuator_Migrate d ctx (cr w1) cluster = Returned None \<and>
      statusUpdater_Success d ctx LastOperationTypeMigrate
        ''Successfully migrated containerruntime'' (logEvent (ActuatorMigrate ctx) w1)
        = (None, w2)"
    {
      assume "DeleteAllFinalizers d ctx w2 = (Some err, w3)"
      with s show "migrate d ctx cluster w =
           (Return emptyResult
              (Some (Errorf ''error removing finalizers from the containerruntime: '' err)), w3)"
        by (simp add: migrate_def)
    next
      assume "DeleteAllFinalizers d ctx w2 = (None, w3) \<and>
         RemoveAnnotation d ctx (GardenerOperation d) w3 = (Some err, w4)"
      with s show "migrate d ctx cluster w =
           (Return emptyResult
              (Some (Errorf ''error removing annotation from containerruntime: '' err)), w4)"
        by (simp add: migrate_def)
    next
      assume c: "DeleteAllFinalizers d ctx w2 = (None, w3) \<and>
         RemoveAnnotation d ctx (GardenerOperation d) w3 = (None, w4)"
      with s show "migrate d ctx cluster w = (Return emptyResult None, w4)"
        by (simp add: migrate_def)
      from c cleared show "Finalizers (ObjectMeta (cr w4)) = []"
        and "Annotations (ObjectMeta (cr w4)) (GardenerOperation d) = None"
        by blast+
    }
  qed
qed

theorem migrate_clears_everything_witness:
  "Finalizers (ObjectMeta migratingObject) = [''other'', ''containerruntime'']
   \<and> Annotations (ObjectMeta migratingObject) (GardenerOperation sampleDeps) = Some ''migrate''
   \<and> fst (migrate sampleDeps 0 sampleCluster \<lparr>cr = migratingObject, trace = []\<rparr>) =
       Return emptyResult None
   \<and> Finalizers (ObjectMeta (cr (snd (migrate sampleDeps 0 sampleCluster
        \<lparr>cr = migratingObject, trace = []\<rparr>)))) = []
   \<and> Annotations (ObjectMeta (cr (snd (migrate sampleDeps 0 sampleCluster
        \<lparr>cr = migratingObject, trace = []\<rparr>)))) (GardenerOperation sampleDeps) = None
   \<and> fst (migrate (sampleDeps\<lparr>store_update := refuseNoFinalizers\<rparr>) 0 sampleCluster
             \<lparr>cr = migratingObject, trace = []\<rparr>) =
       Return emptyResult
         (Some (Errorf ''error removing finalizers from the containerruntime: ''
                  (Err ''conflict'')))
   \<and> fst (migrate (sampleDeps\<lparr>store_update := refuseCleared\<rparr>) 0 sampleCluster
             \<lparr>cr = migratingObject, trace = []\<rparr>) =
       Return emptyResult
         (Some (Errorf ''error removing annotation from containerruntime: ''
                  (Err ''conflict'')))"
proof -
  let ?w = "\<lparr>cr = migratingObject, trace = []\<rparr>"
  let ?p = "''Migrating the containerruntime''"
  let ?s = "''Successfully migrated containerruntime''"
  have start: "Finalizers (ObjectMeta migratingObject) = [''other'', ''containerruntime'']"
    "Annotations (ObjectMeta migratingObject) (GardenerOperation sampleDeps) = Some ''migrate''"
    by (simp_all add: sample_defs setFinalizers_def)
  have ok: "fst (migrate sampleDeps 0 sampleCluster ?w) = Return emptyResult None"
    by (simp add: migrate_def sample_defs model_defs)
  note cleared = migrate_clears_everything
    [where d = sampleDeps and ctx = 0 and cluster = sampleCluster and w = ?w,
     THEN conjunct1, rule_format, OF ok]
  let ?d1 = "sampleDeps\<lparr>store_update := refuseNoFinalizers\<rparr>"
  let ?v1 = "snd (statusUpdater_Processing ?d1 0 LastOperationTypeMigrate ?p ?w)"
  let ?v2 = "snd (statusUpdater_Success ?d1 0 LastOperationTypeMigrate ?s
                    (logEvent (ActuatorMigrate 0) ?v1))"
  have steps1:
    "statusUpdater_Processing ?d1 0 LastOperationTypeMigrate ?p ?w = (None, ?v1) \<and>
     actuator_Migrate ?d1 0 (cr ?v1) sampleCluster = Returned None \<and>
     statusUpdater_Success ?d1 0 LastOperationTypeMigrate ?s (logEvent (ActuatorMigrate 0) ?v1)
       = (None, ?v2)"
    by (simp add: sample_defs model_defs)
  have fails1: "DeleteAllFinalizers ?d1 0 ?v2 =
      (Some (Err ''conflict''), snd (DeleteAllFinalizers ?d1 0 ?v2))"
    by (simp add: sample_defs model_defs)
  note r1 = migrate_clears_everything
    [where d = ?d1 and ctx = 0 and cluster = sampleCluster and w = ?w,
     THEN conjunct2, rule_format, OF steps1, THEN conjunct1, rule_format, OF fails1]
  let ?d2 = "sampleDeps\<lparr>store_update := refuseCleared\<rparr>"
  let ?u1 = "snd (statusUpdater_Processing ?d2 0 LastOperationTypeMigrate ?p ?w)"
  let ?u2 = "snd (statusUpdater_Success ?d2 0 LastOperationTypeMigrate ?s
                    (logEvent (ActuatorMigrate 0) ?u1))"
  let ?u3 = "snd (DeleteAllFinalizers ?d2 0 ?u2)"
  have steps2:
    "statusUpdater_Processing ?d2 0 LastOperationTypeMigrate ?p ?w = (None, ?u1) \<and>
     actuator_Migrate ?d2 0 (cr ?u1) sampleCluster = Returned None \<and>
     statusUpdater_Success ?d2 0 LastOperationTypeMigrate ?s (logEvent (ActuatorMigrate 0) ?u1)
       = (None, ?u2)"
    by (simp add: sample_defs scenario_defs model_defs)
  have fails2: "DeleteAllFinalizers ?d2 0 ?u2 = (None, ?u3) \<and>
      RemoveAnnotation ?d2 0 (GardenerOperation ?d2) ?u3 =
        (Some (Err ''conflict''), snd (RemoveAnnotation ?d2 0 (GardenerOperation ?d2) ?u3))"
    by (simp add: sample_defs scenario_defs model_defs)
  note r2 = migrate_clears_everything
    [where d = ?d2 and ctx = 0 and cluster = sampleCluster and w = ?w,
     THEN conjunct2, rule_format, OF steps2, THEN conjunct2, THEN conjunct1, rule_format,
     OF fails2]
  show ?thesis
    using start ok cleared by (simp add: r1 r2)
qed

text \<open>
  Claim C2 as stated fails in its last part: when the store refuses the write that clears
  the finalizers with the error "conflict", the migrate handler does not return that
  error but a new one, whose text starts with "error removing finalizers from the
  containerruntime: ".
\<close>

theorem migrate_cleanup_error_is_rewrapped_counterexample:
  "fst (migrate (sampleDeps\<lparr>store_update := refuseNoFinalizers\<rparr>) 0 sampleCluster
             \<lparr>cr = migratingObject, trace = []\<rparr>)
       \<noteq> Return emptyResult (Some (Err ''conflict''))
   \<and> fst (migrate (sampleDeps\<lparr>store_update := refuseNoFinalizers\<rparr>) 0 sampleCluster
             \<lparr>cr = migratingObject, trace = []\<rparr>) =
       Return emptyResult
         (Some (Errorf ''error removing finalizers from the containerruntime: ''
                  (Err ''conflict'')))
   \<and> last (trace (snd (migrate (sampleDeps\<lparr>store_update := refuseNoFinalizers\<rparr>) 0
                          sampleCluster \<lparr>cr = migratingObject, trace = []\<rparr>))) =
       StoreUpdate
         (setFinalizers []
            (setLastOperation LastOperationTypeMigrate LastOperationStateSucceeded
               ''Successfully migrated containerruntime'' migratingObject))
         (Some (Err ''conflict''))"
  by (simp add: migrate_def sample_defs model_defs)

subsection \<open>The cleanup of the ownership guard\<close>

text \<open>
  Claim C9. The cleanup events in the log of an invocation are exactly these: the one
  cleanup the watchdog handed back, once, when the guard was acquired (the watchdog
  confirmed the ownership without an error and returned a cleanup action), and none
  otherwise. When the guard was acquired the cleanup is the last call of the invocation,
  however the handler ended: with a result, with an error, or with a panic of the
  actuator.
\<close>

theorem cleanup_runs_exactly_once_when_acquired:
  "filter isCleanup (trace (snd (Reconcile d ctx request))) =
     (case acquiredCleanup d ctx request of None \<Rightarrow> [] | Some c \<Rightarrow> [Cleanup c])
   \<and> (\<forall>c. acquiredCleanup d ctx request = Some c \<longrightarrow>
          last (trace (snd (Reconcile d ctx request))) = Cleanup c)"
  by (simp add: Reconcile_def acquiredCleanup_def Let_def deferred_trace dispatch_isCleanup
      split: sum.split prod.split option.split)

theorem cleanup_runs_exactly_once_when_acquired_witness:
  "acquiredCleanup panickingActuator 0 sampleRequest = Some 7
   \<and> fst (Reconcile panickingActuator 0 sampleRequest) = Panic ''boom''
   \<and> filter isCleanup (trace (snd (Reconcile panickingActuator 0 sampleRequest))) = [Cleanup 7]
   \<and> last (trace (snd (Reconcile panickingActuator 0 sampleRequest))) = Cleanup 7
   \<and> acquiredCleanup failingActuator 0 sampleRequest = Some 7
   \<and> fst (Reconcile failingActuator 0 sampleRequest) =
       Return emptyResult (Some (Err ''actuator failed''))
   \<and> filter isCleanup (trace (snd (Reconcile failingActuator 0 sampleRequest))) = [Cleanup 7]
   \<and> acquiredCleanup sampleDeps 0 sampleRequest = Some 7
   \<and> fst (Reconcile sampleDeps 0 sampleRequest) = Return emptyResult None
   \<and> filter isCleanup (trace (snd (Reconcile sampleDeps 0 sampleRequest))) = [Cleanup 7]
   \<and> acquiredCleanup contestedMigration 0 sampleRequest = None
   \<and> filter isCleanup (trace (snd (Reconcile contestedMigration 0 sampleRequest))) = []
   \<and> acquiredCleanup (sampleDeps\<lparr>GetOwnerCheckResultAndContext := denyingWatchdog\<rparr>) 0
        sampleRequest = None
   \<and> filter isCleanup
        (trace (snd (Reconcile (sampleDeps\<lparr>GetOwnerCheckResultAndContext := denyingWatchdog\<rparr>)
                       0 sampleRequest))) = []"
proof -
  have acquired:
    "acquiredCleanup panickingActuator 0 sampleRequest = Some 7"
    "acquiredCleanup failingActuator 0 sampleRequest = Some 7"
    "acquiredCleanup sampleDeps 0 sampleRequest = Some 7"
    by (simp_all add: acquiredCleanup_def sample_defs scenario_defs)
  have not_acquired:
    "acquiredCleanup contestedMigration 0 sampleRequest = None"
    "acquiredCleanup (sampleDeps\<lparr>GetOwnerCheckResultAndContext := denyingWatchdog\<rparr>) 0
       sampleRequest = None"
    by (simp_all add: acquiredCleanup_def sample_defs scenario_defs setFinalizers_def)
  have exits:
    "fst (Reconcile panickingActuator 0 sampleRequest) = Panic ''boom''"
    "fst (Reconcile failingActuator 0 sampleRequest) =
       Return emptyResult (Some (Err ''actuator failed''))"
    "fst (Reconcile sampleDeps 0 sampleRequest) = Return emptyResult None"
    by (simp_all add: Reconcile_def dispatch_def reconcile_def deferred_def
        sample_defs scenario_defs model_defs)
  show ?thesis
    using acquired not_acquired exits
      cleanup_runs_exactly_once_when_acquired [of panickingActuator 0 sampleRequest]
      cleanup_runs_exactly_once_when_acquired [of failingActuator 0 sampleRequest]
      cleanup_runs_exactly_once_when_acquired [of sampleDeps 0 sampleRequest]
      cleanup_runs_exactly_once_when_acquired [of contestedMigration 0 sampleRequest]
      cleanup_runs_exactly_once_when_acquired
        [of "sampleDeps\<lparr>GetOwnerCheckResultAndContext := denyingWatchdog\<rparr>" 0 sampleRequest]
    by simp
qed

subsection \<open>The finalizer comes before the status\<close>

text \<open>
  Claim C10. In the reconcile and restore handlers the finalizer is ensured first. When
  that fails, the handler returns the error and the world is the one before plus the
  refused write of the finalizer: no status was written. When it succeeds, the object
  carries the token from then on, up to the end of the handler. Every object either
  handler hands to the store, the Processing status write first, carries the token; so
  an object on which these handlers have put a last operation record, of state Processing
  and type Reconcile or Restore or any other, carries the token.
\<close>

theorem finalizer_before_Processing:
  "(EnsureFinalizer d ctx (FinalizerName d) w = (Some err, w') \<longrightarrow>
      reconcile d ctx cluster operationType w = (Return emptyResult (Some err), w') \<and>
      restore d ctx cluster w = (Return emptyResult (Some err), w') \<and>
      w' = logEvent
             (StoreUpdate
                (setFinalizers (Finalizers (ObjectMeta (cr w)) @ [FinalizerName d]) (cr w))
                (Some err)) w)
   \<and> (EnsureFinalizer d ctx (FinalizerName d) w = (None, w0) \<longrightarrow>
        ContainsFinalizer (cr w0) (FinalizerName d) \<and>
        ContainsFinalizer (cr (snd (reconcile d ctx cluster operationType w)))
          (FinalizerName d) \<and>
        ContainsFinalizer (cr (snd (restore d ctx cluster w))) (FinalizerName d))
   \<and> list_all (carriesFinalizer (FinalizerName d))
        (drop (length (trace w)) (trace (snd (reconcile d ctx cluster operationType w))))
   \<and> list_all (carriesFinalizer (FinalizerName d))
        (drop (length (trace w)) (trace (snd (restore d ctx cluster w))))"
proof (intro conjI impI)
  assume a: "EnsureFinalizer d ctx (FinalizerName d) w = (Some err, w')"
  then show "reconcile d ctx cluster operationType w = (Return emptyResult (Some err), w')"
    by (simp add: reconcile_def)
  from a show "restore d ctx cluster w = (Return emptyResult (Some err), w')"
    by (simp add: restore_def)
  from a have "fst (EnsureFinalizer d ctx (FinalizerName d) w) = Some err"
    and "snd (EnsureFinalizer d ctx (FinalizerName d) w) = w'"
    by simp_all
  then show "w' = logEvent
             (StoreUpdate
                (setFinalizers (Finalizers (ObjectMeta (cr w)) @ [FinalizerName d]) (cr w))
                (Some err)) w"
    using EnsureFinalizer_failed by metis
next
  assume "EnsureFinalizer d ctx (FinalizerName d) w = (None, w0)"
  then have ensured: "fst (EnsureFinalizer d ctx (FinalizerName d) w) = None"
    and "snd (EnsureFinalizer d ctx (FinalizerName d) w) = w0"
    by simp_all
  then have "finalized (FinalizerName d) (length (trace w)) w0"
    using finalized_EnsureFinalizer by metis
  then show "ContainsFinalizer (cr w0) (FinalizerName d)"
    by (simp add: finalized_def)
  from reconcile_finalized_world [OF ensured]
  show "ContainsFinalizer (cr (snd (reconcile d ctx cluster operationType w)))
          (FinalizerName d)"
    by (simp add: finalized_def)
  from restore_finalized_world [OF ensured]
  show "ContainsFinalizer (cr (snd (restore d ctx cluster w))) (FinalizerName d)"
    by (simp add: finalized_def)
next
  show "list_all (carriesFinalizer (FinalizerName d))
        (drop (length (trace w)) (trace (snd (reconcile d ctx cluster operationType w))))"
    by (rule reconcile_finalized)
  show "list_all (carriesFinalizer (FinalizerName d))
        (drop (length (trace w)) (trace (snd (restore d ctx cluster w))))"
    by (rule restore_finalized)
qed

theorem finalizer_before_Processing_witness:
  "\<not> ContainsFinalizer sampleObject (FinalizerName sampleDeps)
   \<and> EnsureFinalizer (sampleDeps\<lparr>store_update := refuseAll\<rparr>) 0 ''containerruntime''
        \<lparr>cr = sampleObject, trace = []\<rparr> =
       (Some (Err ''conflict''),
        \<lparr>cr = sampleObject, trace = [StoreUpdate finalizedObject (Some (Err ''conflict''))]\<rparr>)
   \<and> reconcile (sampleDeps\<lparr>store_update := refuseAll\<rparr>) 0 sampleCluster
        LastOperationTypeReconcile \<lparr>cr = sampleObject, trace = []\<rparr> =
       (Return emptyResult (Some (Err ''conflict'')),
        \<lparr>cr = sampleObject, trace = [StoreUpdate finalizedObject (Some (Err ''conflict''))]\<rparr>)
   \<and> restore (sampleDeps\<lparr>store_update := refuseAll\<rparr>) 0 sampleCluster
        \<lparr>cr = sampleObject, trace = []\<rparr> =
       (Return emptyResult (Some (Err ''conflict'')),
        \<lparr>cr = sampleObject, trace = [StoreUpdate finalizedObject (Some (Err ''conflict''))]\<rparr>)
   \<and> EnsureFinalizer sampleDeps 0 ''containerruntime'' \<lparr>cr = sampleObject, trace = []\<rparr> =
       (None, \<lparr>cr = finalizedObject, trace = [StoreUpdate finalizedObject None]\<rparr>)
   \<and> ContainsFinalizer finalizedObject ''containerruntime''
   \<and> ContainsFinalizer
        (cr (snd (reconcile sampleDeps 0 sampleCluster LastOperationTypeReconcile
                    \<lparr>cr = sampleObject, trace = []\<rparr>))) ''containerruntime''
   \<and> ContainsFinalizer
        (cr (snd (restore sampleDeps 0 sampleCluster \<lparr>cr = sampleObject, trace = []\<rparr>)))
        ''containerruntime''
   \<and> list_all (carriesFinalizer ''containerruntime'')
        (trace (snd (reconcile sampleDeps 0 sampleCluster LastOperationTypeReconcile
                       \<lparr>cr = sampleObject, trace = []\<rparr>)))
   \<and> list_all (carriesFinalizer ''containerruntime'')
        (trace (snd (restore sampleDeps 0 sampleCluster \<lparr>cr = sampleObject, trace = []\<rparr>)))"
  using
    finalizer_before_Processing [where d = "sampleDeps\<lparr>store_update := refuseAll\<rparr>"
      and ctx = 0 and cluster = sampleCluster and operationType = LastOperationTypeReconcile
      and w = "\<lparr>cr = sampleObject, trace = []\<rparr>" and err = "Err ''conflict''"
      and w' = "\<lparr>cr = sampleObject,
                 trace = [StoreUpdate finalizedObject (Some (Err ''conflict''))]\<rparr>"
      and ?w0.0 = "\<lparr>cr = sampleObject, trace = []\<rparr>"]
    finalizer_before_Processing [where d = sampleDeps
      and ctx = 0 and cluster = sampleCluster and operationType = LastOperationTypeReconcile
      and w = "\<lparr>cr = sampleObject, trace = []\<rparr>" and err = "Err ''conflict''"
      and w' = "\<lparr>cr = sampleObject, trace = []\<rparr>"
      and ?w0.0 = "\<lparr>cr = finalizedObject, trace = [StoreUpdate finalizedObject None]\<rparr>"]
  by (simp add: sample_defs model_defs)

end
